theory Spec2Isabelle
  imports Main "HOL-Library.Sublist"
begin

section \<open>JavaScript strings and failure values\<close>

text \<open>
  A JavaScript string is a sequence of UTF-16 code units. The superscript characters the
  exponent rewriter produces lie outside ASCII, so strings are lists of code units
  (natural numbers) rather than lists of 8-bit characters. \<open>ascii\<close> embeds an ASCII
  literal.
\<close>

type_synonym jsstring = "nat list"

definition ascii :: "string \<Rightarrow> jsstring" where
  "ascii s = map of_char s"

text \<open>\<open>s.includes(t)\<close>: \<open>t\<close> occurs in \<open>s\<close> as a contiguous run.\<close>

fun js_includes :: "jsstring \<Rightarrow> jsstring \<Rightarrow> bool" where
  "js_includes [] t = (t = [])"
| "js_includes (c # cs) t = (prefix t (c # cs) \<or> js_includes cs t)"

text \<open>
  White space and line terminators of ECMAScript, the characters \<open>String.prototype.trim\<close>
  strips from both ends.
\<close>

definition js_whitespace :: "nat \<Rightarrow> bool" where
  "js_whitespace c \<longleftrightarrow>
     c \<in> {9, 10, 11, 12, 13, 32, 160, 5760, 8232, 8233, 8239, 8287, 12288, 65279}
     \<or> (8192 \<le> c \<and> c \<le> 8202)"

definition trim :: "jsstring \<Rightarrow> jsstring" where
  "trim s = rev (dropWhile js_whitespace (rev (dropWhile js_whitespace s)))"

text \<open>\<open>n.toString()\<close> for a non-negative integer: its decimal digits.\<close>

function toString :: "nat \<Rightarrow> jsstring" where
  "toString n = (if n < 10 then [48 + n] else toString (n div 10) @ [48 + n mod 10])"
  by pat_completeness auto
termination
  by (relation "measure (\<lambda>n. n)") auto

declare toString.simps [simp del]

text \<open>
  A value thrown by the remote client or by the code itself. The code reads two
  properties of it, \<open>status\<close> and \<open>message\<close>; either may be absent. \<open>new Error(m)\<close> has
  a message and no status.
\<close>

record error =
  status :: "int option"
  message :: "jsstring option"

definition Error :: "jsstring \<Rightarrow> error" where
  "Error m = \<lparr>status = None, message = Some m\<rparr>"

text \<open>
  A \<open>TypeError\<close> raised by the runtime when a property of \<open>undefined\<close> or \<open>null\<close> is
  read; the argument names the property.
\<close>

definition TypeError :: "jsstring \<Rightarrow> error" where
  "TypeError prop = Error (ascii ''Cannot read properties of undefined (reading '' @ prop @ ascii '')'')"

section \<open>services/geminiService.ts\<close>

subsection \<open>replaceSuperscripts\<close>

text \<open>The table \<open>map\<close> of \<open>replaceSuperscripts\<close>, keyed by code unit.\<close>

definition superscript_map :: "nat \<rightharpoonup> nat" where
  "superscript_map =
     [48 \<mapsto> 0x2070, 49 \<mapsto> 0xB9, 50 \<mapsto> 0xB2, 51 \<mapsto> 0xB3, 52 \<mapsto> 0x2074,
      53 \<mapsto> 0x2075, 54 \<mapsto> 0x2076, 55 \<mapsto> 0x2077, 56 \<mapsto> 0x2078, 57 \<mapsto> 0x2079,
      43 \<mapsto> 0x207A, 45 \<mapsto> 0x207B]"

text \<open>\<open>map[c] || c\<close>.\<close>

definition superscript :: "nat \<Rightarrow> nat" where
  "superscript c = (case superscript_map c of Some u \<Rightarrow> u | None \<Rightarrow> c)"

text \<open>The character class \<open>[0-9+\-]\<close> of the regular expression.\<close>

definition exponent_char :: "nat \<Rightarrow> bool" where
  "exponent_char c \<longleftrightarrow> (48 \<le> c \<and> c \<le> 57) \<or> c = 43 \<or> c = 45"

text \<open>
  \<open>text.replace(/\^([0-9+\-]+)/g, ...)\<close>: scanning from the left, a caret (code unit 94)
  followed by a non-empty, maximal run of class characters is replaced by the run mapped
  through the table, and the scan goes on after the run; any other character is copied.
\<close>

function replaceSuperscripts :: "jsstring \<Rightarrow> jsstring" where
  "replaceSuperscripts [] = []"
| "replaceSuperscripts (c # cs) =
     (if c = 94 \<and> takeWhile exponent_char cs \<noteq> []
      then map superscript (takeWhile exponent_char cs)
           @ replaceSuperscripts (dropWhile exponent_char cs)
      else c # replaceSuperscripts cs)"
  by pat_completeness auto
termination
  by (relation "measure length") (auto simp: length_dropWhile_le less_Suc_eq_le)

text \<open>
  An occurrence of the pattern, in the spec's words: a caret immediately followed by a
  digit or sign character.
\<close>

fun has_exponent :: "jsstring \<Rightarrow> bool" where
  "has_exponent (a # b # cs) = ((a = 94 \<and> exponent_char b) \<or> has_exponent (b # cs))"
| "has_exponent _ = False"

subsection \<open>retryAPI\<close>

text \<open>
  The condition of the \<open>catch\<close> block of \<open>retryAPI\<close> under which a failure is retried
  (apart from the remaining budget).
\<close>

definition isTransient :: "error \<Rightarrow> bool" where
  "isTransient e \<longleftrightarrow>
     status e = Some 429 \<or> status e = Some 503 \<or>
     (case message e of None \<Rightarrow> False | Some m \<Rightarrow> js_includes m (ascii ''429'')) \<or>
     (case message e of None \<Rightarrow> False | Some m \<Rightarrow> js_includes m (ascii ''RESOURCE_EXHAUSTED'')) \<or>
     (case message e of None \<Rightarrow> False | Some m \<Rightarrow> js_includes m (ascii ''quota''))"

text \<open>
  An operation \<open>() => Promise<T>\<close> acts on the outside world (a state of type \<open>'s\<close>) and
  either rejects with a failure or resolves with a value. What \<open>retryAPI\<close> does is
  recorded in a log: every invocation of the operation and every \<open>setTimeout\<close> delay, in
  the order they happen.
\<close>

datatype event = Invoke | Sleep int

type_synonym ('s, 'a) operation = "'s \<Rightarrow> (error + 'a) \<times> 's"

function retryAPI ::
  "('s, 'a) operation \<Rightarrow> int \<Rightarrow> int \<Rightarrow> 's \<times> event list \<Rightarrow> (error + 'a) \<times> 's \<times> event list" where
  "retryAPI operation retries delay (s, log) =
     (case operation s of
        (Inr v, s') \<Rightarrow> (Inr v, s', log @ [Invoke])
      | (Inl err, s') \<Rightarrow>
          if retries > 0 \<and> isTransient err
          then retryAPI operation (retries - 1) (delay * 2) (s', log @ [Invoke, Sleep delay])
          else (Inl err, s', log @ [Invoke]))"
  by pat_completeness auto
termination
  by (relation "measure (\<lambda>(operation, retries, delay, w). nat retries)") auto

declare retryAPI.simps [simp del]

text \<open>Reading the log: how often the operation ran, and the delays slept, in order.\<close>

fun invocations :: "event list \<Rightarrow> nat" where
  "invocations [] = 0"
| "invocations (Invoke # es) = Suc (invocations es)"
| "invocations (Sleep d # es) = invocations es"

fun delays :: "event list \<Rightarrow> int list" where
  "delays [] = []"
| "delays (Invoke # es) = delays es"
| "delays (Sleep d # es) = d # delays es"

subsection \<open>The remote collaborator\<close>

text \<open>
  \<open>ai.models.generateContent\<close> is the remote collaborator: a parameter \<open>gen\<close> of the
  functions below, from a request and the state of the world to a failure or a response.
  A request is determined by the arguments of the function that builds it (the prompt
  template, the model name and the response schema are constants of the source). Of a
  response the code reads \<open>response.text\<close>, which may be absent.
\<close>

datatype request =
  ChaptersRequest jsstring jsstring
| AnalysisRequest jsstring jsstring

record response =
  resp_text :: "jsstring option"

type_synonym 's generateContent = "request \<Rightarrow> 's \<Rightarrow> (error + response) \<times> 's"

record ChapterCategory =
  category :: jsstring
  chapters :: "jsstring list"

text \<open>
  \<open>JSON.parse\<close> is a parameter as well: it throws, or returns \<open>null\<close>, or a value whose
  \<open>categories\<close> property is an array or is missing.
\<close>

datatype chapters_json = JsonNull | JsonObject "ChapterCategory list option"

type_synonym json_parse = "jsstring \<Rightarrow> error + chapters_json"

subsection \<open>getChapters\<close>

text \<open>The arrow function passed to \<open>retryAPI\<close>. An empty string is falsy.\<close>

definition getChapters_operation ::
  "'s generateContent \<Rightarrow> json_parse \<Rightarrow> jsstring \<Rightarrow> jsstring \<Rightarrow> ('s, ChapterCategory list) operation" where
  "getChapters_operation gen parse classLevel subject s =
     (case gen (ChaptersRequest classLevel subject) s of
        (Inl err, s') \<Rightarrow> (Inl err, s')
      | (Inr response, s') \<Rightarrow>
          (case resp_text response of
             None \<Rightarrow> (Inr [], s')
           | Some t \<Rightarrow>
               if t = [] then (Inr [], s')
               else (case parse t of
                       Inl err \<Rightarrow> (Inl err, s')
                     | Inr JsonNull \<Rightarrow> (Inl (TypeError (ascii ''categories'')), s')
                     | Inr (JsonObject None) \<Rightarrow> (Inr [], s')
                     | Inr (JsonObject (Some cs)) \<Rightarrow> (Inr cs, s'))))"

definition getChapters ::
  "'s generateContent \<Rightarrow> json_parse \<Rightarrow> jsstring \<Rightarrow> jsstring \<Rightarrow> 's \<times> event list
     \<Rightarrow> (error + ChapterCategory list) \<times> 's \<times> event list" where
  "getChapters gen parse classLevel subject w =
     retryAPI (getChapters_operation gen parse classLevel subject) 3 2000 w"

subsection \<open>analyzeSyllabus\<close>

definition analyzeSyllabus_operation ::
  "'s generateContent \<Rightarrow> jsstring \<Rightarrow> jsstring \<Rightarrow> ('s, jsstring) operation" where
  "analyzeSyllabus_operation gen fileBase64 mimeType s =
     (case gen (AnalysisRequest fileBase64 mimeType) s of
        (Inl err, s') \<Rightarrow> (Inl err, s')
      | (Inr response, s') \<Rightarrow>
          (case resp_text response of
             None \<Rightarrow> (Inl (Error (ascii ''No analysis generated'')), s')
           | Some t \<Rightarrow>
               if t = [] then (Inl (Error (ascii ''No analysis generated'')), s')
               else (Inr t, s')))"

definition highTraffic :: error where
  "highTraffic = Error (ascii
     ''High traffic. We are automatically retrying, but if this persists, please try again in a few minutes.'')"

text \<open>The condition of the \<open>.catch\<close> handler of \<open>analyzeSyllabus\<close>.\<close>

definition is429 :: "error \<Rightarrow> bool" where
  "is429 e \<longleftrightarrow>
     status e = Some 429 \<or>
     (case message e of None \<Rightarrow> False | Some m \<Rightarrow> js_includes m (ascii ''429''))"

definition analyzeSyllabus ::
  "'s generateContent \<Rightarrow> jsstring \<Rightarrow> jsstring \<Rightarrow> 's \<times> event list
     \<Rightarrow> (error + jsstring) \<times> 's \<times> event list" where
  "analyzeSyllabus gen fileBase64 mimeType w =
     (case retryAPI (analyzeSyllabus_operation gen fileBase64 mimeType) 3 2000 w of
        (Inr t, w') \<Rightarrow> (Inr t, w')
      | (Inl err, w') \<Rightarrow>
          if is429 err then (Inl highTraffic, w') else (Inl err, w'))"

section \<open>components/AITutor.tsx: handleSend\<close>

datatype role = user | model

record ChatMessage =
  role :: role
  msg_text :: jsstring

text \<open>The state of the component that \<open>handleSend\<close> reads and sets.\<close>

record tutor =
  messages :: "ChatMessage list"
  input :: jsstring
  loading :: bool

text \<open>
  What \<open>sendMessageStream\<close> and the iteration over its result do in one turn: the call
  itself throws, or it returns a stream that yields chunks and then either ends or throws.
  Of a chunk the code reads \<open>c.text\<close>, which may be absent. The chunks listed are those
  received before the stream ended or threw.
\<close>

type_synonym chunk = "jsstring option"

datatype turn = SendFailed error | Stream "chunk list" "error option"

definition apology :: ChatMessage where
  "apology = \<lparr>role = model,
     msg_text = ascii ''I'm sorry, I encountered an error. Please try again.''\<rparr>"

text \<open>
  The state updater \<open>prev => { const updated = [...prev]; updated[updated.length - 1].text
  = fullResponse; return updated; }\<close>. On an empty array \<open>updated[-1]\<close> is \<open>undefined\<close>
  and the assignment throws: \<open>None\<close>.
\<close>

definition overwrite_last :: "jsstring \<Rightarrow> ChatMessage list \<Rightarrow> ChatMessage list option" where
  "overwrite_last fullResponse prev =
     (if prev = [] then None
      else Some (prev[length prev - 1 := (prev ! (length prev - 1))\<lparr>msg_text := fullResponse\<rparr>]))"

text \<open>The \<open>for await\<close> loop: the accumulator and the transcript after the chunks.\<close>

fun consume :: "chunk list \<Rightarrow> jsstring \<Rightarrow> ChatMessage list \<Rightarrow> (jsstring \<times> ChatMessage list) option" where
  "consume [] fullResponse ms = Some (fullResponse, ms)"
| "consume (c # cs) fullResponse ms =
     (case c of
        None \<Rightarrow> consume cs fullResponse ms
      | Some t \<Rightarrow>
          if t = [] then consume cs fullResponse ms
          else (case overwrite_last (fullResponse @ t) ms of
                  None \<Rightarrow> None
                | Some ms' \<Rightarrow> consume cs (fullResponse @ t) ms'))"

text \<open>\<open>textOverride || input\<close>: an absent or empty override gives way to the input field.\<close>

definition textToSend :: "jsstring option \<Rightarrow> jsstring \<Rightarrow> jsstring" where
  "textToSend textOverride inp =
     (case textOverride of
        None \<Rightarrow> inp
      | Some t \<Rightarrow> if t = [] then inp else t)"

text \<open>
  \<open>handleSend\<close>. \<open>chat\<close> is \<open>chatSessionRef.current\<close>: absent, or a session whose
  \<open>sendMessageStream\<close> answers a message with a turn. The result is the state after the
  handler has run to its end (\<open>None\<close> if a state updater threw).
\<close>

definition handleSend :: "(jsstring \<Rightarrow> turn) option \<Rightarrow> jsstring option \<Rightarrow> tutor \<Rightarrow> tutor option" where
  "handleSend chat textOverride st =
     (let txt = textToSend textOverride (input st)
      in case chat of
           None \<Rightarrow> Some st
         | Some sendMessageStream \<Rightarrow>
             if trim txt = [] then Some st
             else
               let newMessages = messages st @ [\<lparr>role = user, msg_text = txt\<rparr>];
                   st1 = st\<lparr>messages := newMessages, input := [], loading := True\<rparr>
               in (case sendMessageStream txt of
                     SendFailed err \<Rightarrow>
                       Some (st1\<lparr>messages := newMessages @ [apology], loading := False\<rparr>)
                   | Stream chunks failure \<Rightarrow>
                       (case consume chunks [] (newMessages @ [\<lparr>role = model, msg_text = []\<rparr>]) of
                          None \<Rightarrow> None
                        | Some (fullResponse, ms) \<Rightarrow>
                            (case failure of
                               None \<Rightarrow> Some (st1\<lparr>messages := ms, loading := False\<rparr>)
                             | Some err \<Rightarrow>
                                 Some (st1\<lparr>messages := ms @ [apology], loading := False\<rparr>)))))"

text \<open>The text of a chunk as the loop adds it to the accumulator.\<close>

definition fragment :: "chunk \<Rightarrow> jsstring" where
  "fragment c = (case c of None \<Rightarrow> [] | Some t \<Rightarrow> t)"

section \<open>services/userService.ts: bookmarks\<close>

record NoteSection =
  heading :: jsstring
  contentPoints :: "jsstring list"

record StudyNote =
  topic :: jsstring
  subject :: jsstring
  classLevel :: jsstring
  introduction :: jsstring
  sections :: "NoteSection list"
  summary :: jsstring

datatype bookmark_type = Topic | Section

record Bookmark =
  bm_id :: jsstring
  userId :: jsstring
  bm_type :: bookmark_type
  title :: jsstring
  subtitle :: jsstring
  timestamp :: nat
  noteData :: StudyNote
  sectionIndex :: "int option"

text \<open>
  The item of local storage under \<open>STORAGE_KEY_BOOKMARKS\<close>: absent, or the JSON text of
  an object from user ids to arrays of bookmarks, modelled by the object it encodes.
  \<open>JSON.parse(localStorage.getItem(STORAGE_KEY_BOOKMARKS) || '{}')\<close> reads it.
\<close>

type_synonym bookmark_store = "(jsstring \<rightharpoonup> Bookmark list) option"

definition allBookmarks :: "bookmark_store \<Rightarrow> (jsstring \<rightharpoonup> Bookmark list)" where
  "allBookmarks store = (case store of None \<Rightarrow> Map.empty | Some m \<Rightarrow> m)"

definition getBookmarks :: "bookmark_store \<Rightarrow> jsstring \<Rightarrow> Bookmark list" where
  "getBookmarks store uid = (case allBookmarks store uid of None \<Rightarrow> [] | Some bs \<Rightarrow> bs)"

text \<open>
  \<open>noteData.sections[sectionIndex!].heading\<close>: with no index, or one outside the array,
  the element is \<open>undefined\<close> and reading \<open>heading\<close> throws.
\<close>

definition section_heading :: "StudyNote \<Rightarrow> int option \<Rightarrow> error + jsstring" where
  "section_heading note idx =
     (case idx of
        None \<Rightarrow> Inl (TypeError (ascii ''heading''))
      | Some i \<Rightarrow>
          if 0 \<le> i \<and> i < int (length (sections note))
          then Inr (heading (sections note ! nat i))
          else Inl (TypeError (ascii ''heading'')))"

text \<open>
  \<open>addBookmark\<close>. The two readings of \<open>Date.now()\<close> are the parameters \<open>now_id\<close> and
  \<open>now_ts\<close>. The result is the failure thrown, or the bookmark returned and the store.
\<close>

definition same_bookmark :: "bookmark_type \<Rightarrow> jsstring \<Rightarrow> int option \<Rightarrow> Bookmark \<Rightarrow> bool" where
  "same_bookmark ty tp idx b \<longleftrightarrow>
     bm_type b = ty \<and> topic (noteData b) = tp \<and> sectionIndex b = idx"

definition addBookmark ::
  "jsstring \<Rightarrow> StudyNote \<Rightarrow> bookmark_type \<Rightarrow> int option \<Rightarrow> nat \<Rightarrow> nat \<Rightarrow> bookmark_store
     \<Rightarrow> error + (Bookmark \<times> bookmark_store)" where
  "addBookmark uid note ty idx now_id now_ts store =
     (let userBookmarks = getBookmarks store uid in
      case (case ty of Topic \<Rightarrow> Inr (topic note) | Section \<Rightarrow> section_heading note idx) of
        Inl err \<Rightarrow> Inl err
      | Inr ttl \<Rightarrow>
          let newBookmark =
                \<lparr>bm_id = ascii ''bm_'' @ toString now_id,
                 userId = uid,
                 bm_type = ty,
                 title = ttl,
                 subtitle =
                   (case ty of
                      Topic \<Rightarrow> classLevel note @ [32, 226, 8364, 162, 32] @ subject note
                    | Section \<Rightarrow> ascii ''From: '' @ topic note),
                 timestamp = now_ts,
                 noteData = note,
                 sectionIndex = idx\<rparr>;
              exists = list_ex (same_bookmark ty (topic note) idx) userBookmarks
          in if exists then Inr (newBookmark, store)
             else Inr (newBookmark, Some ((allBookmarks store)(uid \<mapsto> newBookmark # userBookmarks))))"

definition removeBookmark :: "jsstring \<Rightarrow> jsstring \<Rightarrow> bookmark_store \<Rightarrow> bookmark_store" where
  "removeBookmark uid bookmarkId store =
     (case allBookmarks store uid of
        None \<Rightarrow> store
      | Some bs \<Rightarrow> Some ((allBookmarks store)(uid \<mapsto> filter (\<lambda>b. bm_id b \<noteq> bookmarkId) bs)))"

section \<open>services/userService.ts: sessions\<close>

datatype provider = Google | Email | Anonymous

record User =
  user_id :: jsstring
  name :: jsstring
  email :: jsstring
  avatar :: "jsstring option"
  provider :: provider

text \<open>
  Of a user of the remote auth collaborator the code reads the id, the e-mail address,
  four properties of \<open>user_metadata\<close> and \<open>app_metadata.provider\<close>.
\<close>

record SupabaseUser =
  sb_id :: jsstring
  sb_email :: "jsstring option"
  full_name :: "jsstring option"
  meta_name :: "jsstring option"
  avatar_url :: "jsstring option"
  picture :: "jsstring option"
  app_provider :: "jsstring option"

text \<open>A string that may be absent is truthy when it is present and not empty.\<close>

definition truthy :: "jsstring option \<Rightarrow> bool" where
  "truthy v = (case v of None \<Rightarrow> False | Some t \<Rightarrow> t \<noteq> [])"

text \<open>\<open>v || d\<close>.\<close>

definition or_else :: "jsstring option \<Rightarrow> jsstring \<Rightarrow> jsstring" where
  "or_else v d = (case v of None \<Rightarrow> d | Some t \<Rightarrow> if t = [] then d else t)"

definition mapUser :: "SupabaseUser \<Rightarrow> provider \<Rightarrow> User" where
  "mapUser sbUser prov =
     \<lparr>user_id = sb_id sbUser,
      name = or_else (full_name sbUser) (or_else (meta_name sbUser) (ascii ''Student'')),
      email = or_else (sb_email sbUser) [],
      avatar = Some (or_else (avatar_url sbUser) (or_else (picture sbUser)
                 (ascii ''https://api.dicebear.com/7.x/avataaars/svg?seed='' @ sb_id sbUser))),
      provider = prov\<rparr>"

text \<open>
  The client of the remote auth collaborator, \<open>supabase\<close>, is absent when the module is
  not configured. When present, it answers the two sign-in calls: each answer is a pair
  of \<open>error\<close> and the datum the code reads (\<open>data.url\<close>, \<open>data.user\<close>).
\<close>

record remote =
  signInWithOAuth :: "error option \<times> jsstring option"
  signInWithPassword :: "jsstring \<Rightarrow> jsstring \<Rightarrow> error option \<times> SupabaseUser option"

datatype remote_call =
  SignInWithOAuth
| SignInWithPassword jsstring jsstring
| SignOut
| OnAuthStateChange

text \<open>
  The world of the session functions: the item of local storage under
  \<open>STORAGE_KEY_GUEST\<close>, and the calls made to the remote collaborator so far.
\<close>

record session_world =
  guest_item :: "jsstring option"
  remote_calls :: "remote_call list"

text \<open>
  \<open>JSON.stringify\<close> on a user and \<open>JSON.parse\<close> on the stored text are parameters;
  \<open>JSON.parse\<close> throws or returns a user or \<open>null\<close>.
\<close>

type_synonym json_stringify_user = "User \<Rightarrow> jsstring"
type_synonym json_parse_user = "jsstring \<Rightarrow> error + User option"

text \<open>\<open>s.slice(-6)\<close>.\<close>

definition slice_last6 :: "jsstring \<Rightarrow> jsstring" where
  "slice_last6 s = drop (length s - 6) s"

definition guestUser :: "nat \<Rightarrow> User" where
  "guestUser now =
     \<lparr>user_id = ascii ''guest-'' @ slice_last6 (toString now),
      name = ascii ''Guest Student'',
      email = [],
      avatar = Some (ascii ''https://api.dicebear.com/7.x/avataaars/svg?seed=guest''),
      provider = Anonymous\<rparr>"

definition loginUser ::
  "remote option \<Rightarrow> json_stringify_user \<Rightarrow> provider \<Rightarrow> jsstring option \<Rightarrow> jsstring option \<Rightarrow> nat
     \<Rightarrow> session_world \<Rightarrow> (error + User) \<times> session_world" where
  "loginUser supabase stringify providerName email_arg password now w =
     (if providerName = Anonymous
      then (Inr (guestUser now), w\<lparr>guest_item := Some (stringify (guestUser now))\<rparr>)
      else
        case supabase of
          None \<Rightarrow>
            (Inl (Error (ascii
               ''CONFIGURATION_ERROR: Please open 'services/userService.ts' and paste your Supabase URL and Key.'')), w)
        | Some sb \<Rightarrow>
            if providerName = Google
            then
              (let w' = w\<lparr>remote_calls := remote_calls w @ [SignInWithOAuth]\<rparr> in
               case signInWithOAuth sb of
                 (Some err, url) \<Rightarrow> (Inl err, w')
               | (None, url) \<Rightarrow>
                   if truthy url
                   then (Inr \<lparr>user_id = ascii ''pending'', name = ascii ''Redirecting...'',
                              email = [], avatar = None, provider = Google\<rparr>, w')
                   else (Inl (Error (ascii ''OAuth failed to initialize'')), w'))
            else
              (case (email_arg, password) of
                 (Some e, Some p) \<Rightarrow>
                   if e = [] \<or> p = []
                   then (Inl (Error (ascii ''Email and password required'')), w)
                   else
                     (let w' = w\<lparr>remote_calls := remote_calls w @ [SignInWithPassword e p]\<rparr> in
                      case signInWithPassword sb e p of
                        (Some err, u) \<Rightarrow> (Inl err, w')
                      | (None, None) \<Rightarrow> (Inl (Error (ascii ''No user returned'')), w')
                      | (None, Some u) \<Rightarrow> (Inr (mapUser u Email), w'))
               | _ \<Rightarrow> (Inl (Error (ascii ''Email and password required'')), w)))"

definition logoutUser :: "remote option \<Rightarrow> session_world \<Rightarrow> session_world" where
  "logoutUser supabase w =
     (let w' = w\<lparr>guest_item := None\<rparr> in
      case supabase of
        None \<Rightarrow> w'
      | Some sb \<Rightarrow> w'\<lparr>remote_calls := remote_calls w' @ [SignOut]\<rparr>)"

text \<open>
  \<open>subscribeToAuthChanges\<close>: the values the callback receives before the function
  returns, in order, the world afterwards, and whether a listener was registered with
  the remote collaborator.
\<close>

definition subscribeToAuthChanges ::
  "remote option \<Rightarrow> json_parse_user \<Rightarrow> session_world \<Rightarrow> User option list \<times> session_world \<times> bool" where
  "subscribeToAuthChanges supabase parse w =
     (let guestSession = guest_item w;
          (yielded, w1) =
            (case guestSession of
               None \<Rightarrow> ([], w)
             | Some t \<Rightarrow>
                 if t = [] then ([], w)
                 else (case parse t of
                         Inr u \<Rightarrow> ([u], w)
                       | Inl err \<Rightarrow> ([], w\<lparr>guest_item := None\<rparr>)))
      in case supabase of
           None \<Rightarrow> (if truthy guestSession then yielded else yielded @ [None], w1, False)
         | Some sb \<Rightarrow> (yielded, w1\<lparr>remote_calls := remote_calls w1 @ [OnAuthStateChange]\<rparr>, True))"

text \<open>
  The listener registered with \<open>onAuthStateChange\<close>: the values the callback receives
  when the remote collaborator reports a session (or none) in world \<open>w\<close>.
\<close>

record session =
  session_user :: "SupabaseUser option"

definition authListener :: "session_world \<Rightarrow> session option \<Rightarrow> User option list" where
  "authListener w sess =
     (if truthy (guest_item w) then []
      else
        case sess of
          None \<Rightarrow> [None]
        | Some ss \<Rightarrow>
            (case session_user ss of
               None \<Rightarrow> [None]
             | Some u \<Rightarrow>
                 [Some (mapUser u (if app_provider u = Some (ascii ''email'') then Email else Google))]))"

section \<open>Auxiliary definitions\<close>

text \<open>
  The log \<open>retryAPI\<close> leaves when every invocation is retried: \<open>n\<close> invocations, each
  followed by a delay that doubles, and a last invocation.
\<close>

fun backoff :: "nat \<Rightarrow> int \<Rightarrow> event list" where
  "backoff 0 d = [Invoke]"
| "backoff (Suc n) d = Invoke # Sleep d # backoff n (d * 2)"

section \<open>Concrete inputs\<close>

text \<open>Operations, collaborators and values at which the theorems below are evaluated.\<close>

definition always429 :: "(nat, unit) operation" where
  "always429 s = (Inl \<lparr>status = Some 429, message = None\<rparr>, Suc s)"

definition always_denied :: "(nat, unit) operation" where
  "always_denied s = (Inl (Error (ascii ''permission denied'')), Suc s)"

definition failing_gen :: "nat generateContent" where
  "failing_gen req s = (Inl (Error (ascii ''fetch failed'')), Suc s)"

definition unavailable :: error where
  "unavailable = \<lparr>status = Some 503, message = Some (ascii ''Service Unavailable'')\<rparr>"

definition unavailable_gen :: "nat generateContent" where
  "unavailable_gen req s = (Inl unavailable, Suc s)"

definition throttled_gen :: "nat generateContent" where
  "throttled_gen req s = (Inl \<lparr>status = Some 429, message = Some (ascii ''Too Many Requests'')\<rparr>, Suc s)"

definition silent_gen :: "nat generateContent" where
  "silent_gen req s = (Inr \<lparr>resp_text = None\<rparr>, Suc s)"

definition parse_nothing :: json_parse where
  "parse_nothing t = Inr (JsonObject None)"

definition greeting :: ChatMessage where
  "greeting = \<lparr>role = model, msg_text = ascii ''Hello! I'm your AI Tutor.''\<rparr>"

definition asking :: tutor where
  "asking = \<lparr>messages = [greeting], input = ascii ''What is osmosis?'', loading = False\<rparr>"

definition breaking_stream :: "jsstring \<Rightarrow> turn" where
  "breaking_stream msg = Stream [Some (ascii ''Osmosis is the'')] (Some (Error (ascii ''network'')))"

definition refusing_stream :: "jsstring \<Rightarrow> turn" where
  "refusing_stream msg = SendFailed (Error (ascii ''network''))"

definition answering_stream :: "jsstring \<Rightarrow> turn" where
  "answering_stream msg = Stream [Some (ascii ''Osmosis is the''), None, Some [], Some (ascii '' movement of water.'')] None"

definition photosynthesis :: StudyNote where
  "photosynthesis =
     \<lparr>topic = ascii ''Photosynthesis'', subject = ascii ''Science'', classLevel = ascii ''Class 10'',
      introduction = ascii ''How plants make food.'',
      sections = [\<lparr>heading = ascii ''Light reactions'', contentPoints = []\<rparr>],
      summary = ascii ''Light, water and carbon dioxide give glucose.''\<rparr>"

definition topic_bookmark :: "jsstring \<Rightarrow> nat \<Rightarrow> nat \<Rightarrow> Bookmark" where
  "topic_bookmark uid now_id now_ts =
     \<lparr>bm_id = ascii ''bm_'' @ toString now_id, userId = uid, bm_type = Topic,
      title = ascii ''Photosynthesis'',
      subtitle = ascii ''Class 10'' @ [32, 226, 8364, 162, 32] @ ascii ''Science'',
      timestamp = now_ts, noteData = photosynthesis, sectionIndex = None\<rparr>"

definition one_bookmark :: bookmark_store where
  "one_bookmark =
     Some (Map.empty(ascii ''u1'' \<mapsto> [topic_bookmark (ascii ''u1'') 1700000000123 1700000000124]))"

definition two_users :: bookmark_store where
  "two_users =
     Some ((Map.empty(ascii ''u1'' \<mapsto> [topic_bookmark (ascii ''u1'') 1700000000123 1700000000124]))
             (ascii ''u2'' \<mapsto> [topic_bookmark (ascii ''u2'') 1700000005000 1700000005000]))"

text \<open>
  The world after \<open>n\<close> calls of \<open>subscribeToAuthChanges\<close> one after the other.
\<close>

fun resubscribe :: "remote option \<Rightarrow> json_parse_user \<Rightarrow> nat \<Rightarrow> session_world \<Rightarrow> session_world" where
  "resubscribe supabase parse 0 w = w"
| "resubscribe supabase parse (Suc n) w =
     resubscribe supabase parse n (fst (snd (subscribeToAuthChanges supabase parse w)))"

text \<open>
  A small stand-in for \<open>JSON.stringify\<close> and \<open>JSON.parse\<close> on guest users: the id
  between braces.
\<close>

definition toy_stringify :: json_stringify_user where
  "toy_stringify u = [123] @ user_id u @ [125]"

definition toy_parse :: json_parse_user where
  "toy_parse t =
     (if t \<noteq> [] \<and> hd t = 123 \<and> last t = 125
      then Inr (Some ((guestUser 0)\<lparr>user_id := butlast (tl t)\<rparr>))
      else Inl (Error (ascii ''Unexpected token'')))"

definition fresh_world :: session_world where
  "fresh_world = \<lparr>guest_item = None, remote_calls = []\<rparr>"

definition a_remote :: remote where
  "a_remote = \<lparr>signInWithOAuth = (None, Some (ascii ''https://accounts.example/o'')),
               signInWithPassword = (\<lambda>e p. (Some (Error (ascii ''Invalid login credentials'')), None))\<rparr>"

section \<open>The log of a retried operation\<close>

lemma invocations_backoff: "invocations (backoff n d) = n + 1"
  by (induction n arbitrary: d) simp_all

lemma delays_backoff: "delays (backoff n d) = map (\<lambda>k. d * 2 ^ k) [0..<n]"
proof (induction n arbitrary: d)
  case 0
  show ?case by simp
next
  case (Suc n)
  have "[0..<Suc n] = 0 # map Suc [0..<n]"
    by (simp add: upt_conv_Cons map_Suc_upt del: upt_Suc)
  then show ?case
    using Suc.IH [of "d * 2"] by (simp add: mult.assoc del: upt_Suc)
qed

lemma retryAPI_always_failing:
  assumes "\<forall>s. \<exists>e s'. operation s = (Inl e, s') \<and> isTransient e \<and> P e"
  shows "\<exists>e s'. retryAPI operation (int n) d (s, log) = (Inl e, s', log @ backoff n d)
                 \<and> isTransient e \<and> P e"
proof (induction n arbitrary: d s log)
  case 0
  from assms obtain e s' where "operation s = (Inl e, s')" "isTransient e" "P e" by blast
  then show ?case by (simp add: retryAPI.simps)
next
  case (Suc n)
  from assms obtain e s' where op: "operation s = (Inl e, s')" "isTransient e" by blast
  have "retryAPI operation (int (Suc n)) d (s, log) =
        retryAPI operation (int n) (d * 2) (s', log @ [Invoke, Sleep d])"
    using op by (subst retryAPI.simps) simp
  then show ?case
    using Suc.IH [of "d * 2" s' "log @ [Invoke, Sleep d]"] by simp
qed

lemma retryAPI_first_failure_final:
  assumes "operation s = (Inl e, s')" and "\<not> isTransient e \<or> retries \<le> 0"
  shows "retryAPI operation retries delay (s, log) = (Inl e, s', log @ [Invoke])"
  using assms by (auto simp add: retryAPI.simps)

lemma retryAPI_success:
  assumes "operation s = (Inr v, s')"
  shows "retryAPI operation retries delay (s, log) = (Inr v, s', log @ [Invoke])"
  using assms by (simp add: retryAPI.simps)

lemma backoff_concat:
  "backoff n d = concat (map (\<lambda>k. [Invoke, Sleep (d * 2 ^ k)]) [0..<n]) @ [Invoke]"
proof (induction n arbitrary: d)
  case 0
  show ?case by simp
next
  case (Suc n)
  have "[0..<Suc n] = 0 # map Suc [0..<n]"
    by (simp add: upt_conv_Cons map_Suc_upt del: upt_Suc)
  then show ?case
    using Suc.IH [of "d * 2"] by (simp add: comp_def mult.assoc del: upt_Suc)
qed

lemma funpow_shift: "(g ^^ n) (g x) = (g ^^ Suc n) x"
  by (simp add: funpow_swap1)

lemma retryAPI_always_failing_result:
  assumes "\<forall>s. \<exists>e s'. operation s = (Inl e, s') \<and> isTransient e"
  shows "retryAPI operation (int n) d (s, log) =
           (fst (operation (((snd \<circ> operation) ^^ n) s)),
            ((snd \<circ> operation) ^^ Suc n) s,
            log @ backoff n d)"
proof (induction n arbitrary: d s log)
  case 0
  from assms obtain e s' where "operation s = (Inl e, s')" "isTransient e" by blast
  then show ?case by (simp add: retryAPI.simps)
next
  case (Suc n)
  let ?f = "snd \<circ> operation"
  from assms obtain e s' where op: "operation s = (Inl e, s')" "isTransient e" by blast
  have step: "retryAPI operation (int (Suc n)) d (s, log) =
        retryAPI operation (int n) (d * 2) (s', log @ [Invoke, Sleep d])"
    using op by (subst retryAPI.simps) simp
  have s': "s' = ?f s" using op by simp
  have "retryAPI operation (int n) (d * 2) (s', log @ [Invoke, Sleep d]) =
          (fst (operation ((?f ^^ n) (?f s))), (?f ^^ Suc n) (?f s),
           (log @ [Invoke, Sleep d]) @ backoff n (d * 2))"
    unfolding s' by (rule Suc.IH)
  also have "\<dots> = (fst (operation ((?f ^^ Suc n) s)), (?f ^^ Suc (Suc n)) s,
           log @ backoff (Suc n) d)"
    by (simp only: funpow_shift backoff.simps append_assoc append_Cons append_Nil)
  finally show ?case unfolding step .
qed

section \<open>C1: a transient failure on every invocation uses the whole budget\<close>

text \<open>
  Claim C1. If every invocation of the wrapped operation fails with a failure that
  carries the transient rate-limit signature (status 429 or 503, or a message containing
  429, RESOURCE_EXHAUSTED or quota) and the budget is \<open>N\<close> retries, then \<open>retryAPI\<close>
  invokes the operation exactly \<open>N + 1\<close> times, and the delay slept before the \<open>k\<close>-th
  retry is \<open>initialDelay * 2 ^ (k - 1)\<close> for \<open>k = 1, ..., N\<close>. In full: the world has
  gone through \<open>N + 1\<close> invocations of the operation, one after the other; the call fails
  with the failure of the last of them, which is transient; and the log is \<open>N\<close> times an
  invocation followed by the delay \<open>initialDelay * 2 ^ k\<close> (\<open>k = 0, ..., N - 1\<close>), and then
  one more invocation.
\<close>

theorem retryAPI_exhausts_budget:
  assumes "\<forall>s. \<exists>e s'. operation s = (Inl e, s') \<and> isTransient e"
  shows "retryAPI operation (int N) initialDelay (s, log) =
           (fst (operation (((snd \<circ> operation) ^^ N) s)),
            ((snd \<circ> operation) ^^ (N + 1)) s,
            log @ concat (map (\<lambda>k. [Invoke, Sleep (initialDelay * 2 ^ k)]) [0..<N]) @ [Invoke])
       \<and> invocations (snd (snd (retryAPI operation (int N) initialDelay (s, [])))) = N + 1
       \<and> delays (snd (snd (retryAPI operation (int N) initialDelay (s, [])))) =
           map (\<lambda>k. initialDelay * 2 ^ (k - 1)) [1..<N + 1]
       \<and> (\<exists>e. fst (retryAPI operation (int N) initialDelay (s, [])) = Inl e \<and> isTransient e)"
proof -
  have full: "retryAPI operation (int N) initialDelay (s, l) =
           (fst (operation (((snd \<circ> operation) ^^ N) s)),
            ((snd \<circ> operation) ^^ (N + 1)) s,
            l @ backoff N initialDelay)" for l
    using retryAPI_always_failing_result [OF assms, of N initialDelay s l] by simp
  from assms obtain e s' where
    e: "operation (((snd \<circ> operation) ^^ N) s) = (Inl e, s')" "isTransient e" by blast
  have "[1..<N + 1] = map Suc [0..<N]"
    by (simp add: map_Suc_upt del: upt_Suc)
  then have m: "map (\<lambda>k. initialDelay * 2 ^ (k - 1)) [1..<N + 1] = map (\<lambda>k. initialDelay * 2 ^ k) [0..<N]"
    by (simp add: comp_def del: upt_Suc)
  have 1: "retryAPI operation (int N) initialDelay (s, log) =
           (fst (operation (((snd \<circ> operation) ^^ N) s)),
            ((snd \<circ> operation) ^^ (N + 1)) s,
            log @ concat (map (\<lambda>k. [Invoke, Sleep (initialDelay * 2 ^ k)]) [0..<N]) @ [Invoke])"
    unfolding full backoff_concat ..
  have 2: "invocations (snd (snd (retryAPI operation (int N) initialDelay (s, [])))) = N + 1"
    unfolding full by (simp add: invocations_backoff)
  have 3: "delays (snd (snd (retryAPI operation (int N) initialDelay (s, [])))) =
           map (\<lambda>k. initialDelay * 2 ^ (k - 1)) [1..<N + 1]"
    unfolding full m by (simp add: delays_backoff)
  have 4: "\<exists>e. fst (retryAPI operation (int N) initialDelay (s, [])) = Inl e \<and> isTransient e"
    unfolding full using e by simp
  from 1 2 3 4 show ?thesis by (intro conjI)
qed

text \<open>
  With the default policy (3 retries, 2000 ms) and an operation that always answers 429
  and counts its invocations: the count goes from 0 to 4, with delays of 2, 4 and 8
  seconds between the invocations.
\<close>

theorem retryAPI_exhausts_budget_witness:
  "(\<forall>s. \<exists>e s'. always429 s = (Inl e, s') \<and> isTransient e)
   \<and> retryAPI always429 3 2000 (0, []) =
       (Inl \<lparr>status = Some 429, message = None\<rparr>, 4,
        [Invoke, Sleep 2000, Invoke, Sleep 4000, Invoke, Sleep 8000, Invoke])
   \<and> invocations (snd (snd (retryAPI always429 3 2000 (0, [])))) = 4
   \<and> delays (snd (snd (retryAPI always429 3 2000 (0, [])))) = [2000, 4000, 8000]"
proof -
  have h: "\<forall>s. \<exists>e s'. always429 s = (Inl e, s') \<and> isTransient e"
    by (simp add: always429_def isTransient_def)
  have m: "map (\<lambda>k. 2000 * 2 ^ (k - 1)) [1..<3 + 1] = [2000, 4000, 8000::int]"
    by code_simp
  have c: "concat (map (\<lambda>k. [Invoke, Sleep (2000 * 2 ^ k)]) [0..<3]) @ [Invoke] =
             [Invoke, Sleep 2000, Invoke, Sleep 4000, Invoke, Sleep 8000, Invoke]"
    by (simp add: upt_rec numeral_3_eq_3)
  have f: "((snd \<circ> always429) ^^ n) s = s + n" for n s
    by (induction n) (simp_all add: always429_def)
  from retryAPI_exhausts_budget [OF h, of 3 2000 0 "[]"] h show ?thesis
    unfolding m by (simp add: c f) (simp add: always429_def)
qed

section \<open>C2: any other failure is propagated at once\<close>

text \<open>
  Claim C2. If an invocation of the wrapped operation fails with a failure that does not
  carry the transient rate-limit signature, or fails (transiently or not) when no retry
  is left, then \<open>retryAPI\<close> invokes the operation exactly once at that point, sleeps no
  delay, and fails with that same failure value.
\<close>

theorem retryAPI_propagates:
  assumes "operation s = (Inl e, s')" and "\<not> isTransient e \<or> retries \<le> 0"
  shows "retryAPI operation retries delay (s, log) = (Inl e, s', log @ [Invoke])"
  using assms by (auto simp add: retryAPI.simps)

text \<open>
  A failure without the signature with three retries left, and a 429 with none left.
\<close>

theorem retryAPI_propagates_witness:
  "retryAPI always_denied 3 2000 (0, []) = (Inl (Error (ascii ''permission denied'')), 1, [Invoke])
   \<and> retryAPI always429 0 2000 (0, []) = (Inl \<lparr>status = Some 429, message = None\<rparr>, 1, [Invoke])"
proof -
  have a: "always_denied 0 = (Inl (Error (ascii ''permission denied'')), 1)"
    by (simp add: always_denied_def)
  have na: "\<not> isTransient (Error (ascii ''permission denied'')) \<or> (3::int) \<le> 0"
    by (simp add: isTransient_def Error_def ascii_def)
  have b: "always429 0 = (Inl \<lparr>status = Some 429, message = None\<rparr>, 1)"
    by (simp add: always429_def)
  have nb: "\<not> isTransient \<lparr>status = Some 429, message = None\<rparr> \<or> (0::int) \<le> 0"
    by simp
  from retryAPI_propagates [of always_denied 0 _ 1 3 2000 "[]", OF a na]
    retryAPI_propagates [of always429 0 _ 1 0 2000 "[]", OF b nb]
  show ?thesis by simp
qed

section \<open>The exponent rewriter\<close>

lemma exponent_char_not_caret [simp]: "\<not> exponent_char 94"
  by (simp add: exponent_char_def)

lemma exponent_char_cases:
  "exponent_char c \<Longrightarrow> c \<in> {43, 45, 48, 49, 50, 51, 52, 53, 54, 55, 56, 57}"
  unfolding exponent_char_def by simp arith

lemma superscript_not_caret: "exponent_char c \<Longrightarrow> superscript c \<noteq> 94"
  by (drule exponent_char_cases) (auto simp: superscript_def superscript_map_def)

lemma superscript_not_exponent: "exponent_char c \<Longrightarrow> \<not> exponent_char (superscript c)"
  by (drule exponent_char_cases) (auto simp: superscript_def superscript_map_def exponent_char_def)

lemma takeWhile_before: "\<not> P y \<Longrightarrow> takeWhile P (xs @ y # ys) = takeWhile P xs"
  by (induction xs) auto

lemma dropWhile_before: "\<not> P y \<Longrightarrow> dropWhile P (xs @ y # ys) = dropWhile P xs @ y # ys"
  by (induction xs) auto

lemma replaceSuperscripts_before_caret:
  "replaceSuperscripts (pre @ 94 # rest) = replaceSuperscripts pre @ replaceSuperscripts (94 # rest)"
proof (induction pre rule: replaceSuperscripts.induct)
  case 1
  show ?case by simp
next
  case (2 c cs)
  show ?case
  proof (cases "c = 94 \<and> takeWhile exponent_char cs \<noteq> []")
    case True
    with 2(1) show ?thesis
      by (simp add: takeWhile_before dropWhile_before del: replaceSuperscripts.simps(2))
         (simp add: takeWhile_before dropWhile_before)
  next
    case False
    with 2(2) show ?thesis
      by (auto simp add: takeWhile_before dropWhile_before)
  qed
qed


lemma replaceSuperscripts_run:
  assumes "run \<noteq> []" and "list_all exponent_char run" and "post = [] \<or> \<not> exponent_char (hd post)"
  shows "replaceSuperscripts (94 # run @ post) = map superscript run @ replaceSuperscripts post"
proof -
  have t: "takeWhile exponent_char (run @ post) = run"
    using assms(2,3) by (cases post) (auto simp: list_all_iff takeWhile_append2 intro: takeWhile_eq_all_conv[THEN iffD2])
  have d: "dropWhile exponent_char (run @ post) = post"
    using assms(2,3) by (cases post) (auto simp: list_all_iff dropWhile_append2)
  show ?thesis using assms(1) by (simp add: t d)
qed

lemma has_exponent_Cons:
  "has_exponent (a # xs) \<longleftrightarrow> (a = 94 \<and> xs \<noteq> [] \<and> exponent_char (hd xs)) \<or> has_exponent xs"
  by (cases xs) auto

lemma replaceSuperscripts_no_exponent: "\<not> has_exponent t \<Longrightarrow> replaceSuperscripts t = t"
proof (induction t rule: replaceSuperscripts.induct)
  case 1
  show ?case by simp
next
  case (2 c cs)
  from 2(3) have n: "\<not> (c = 94 \<and> cs \<noteq> [] \<and> exponent_char (hd cs))" and r: "\<not> has_exponent cs"
    by (simp_all add: has_exponent_Cons)
  from n have "\<not> (c = 94 \<and> takeWhile exponent_char cs \<noteq> [])"
    by (cases cs) auto
  with 2(2) r show ?case by auto
qed

lemma hd_replaceSuperscripts:
  "replaceSuperscripts t \<noteq> [] \<Longrightarrow> exponent_char (hd (replaceSuperscripts t))
     \<Longrightarrow> t \<noteq> [] \<and> exponent_char (hd t)"
proof (cases t)
  case Nil
  then show "replaceSuperscripts t \<noteq> [] \<Longrightarrow> ?thesis" by simp
next
  case (Cons c cs)
  assume e: "exponent_char (hd (replaceSuperscripts t))"
  show ?thesis
  proof (cases "c = 94 \<and> takeWhile exponent_char cs \<noteq> []")
    case True
    then obtain x xs where tw: "takeWhile exponent_char cs = x # xs" by (cases "takeWhile exponent_char cs") auto
    then have "x \<in> set (takeWhile exponent_char cs)" by simp
    then have "exponent_char x" by (rule set_takeWhileD [THEN conjunct2])
    with e Cons True tw show ?thesis by (simp add: superscript_not_exponent)
  next
    case False
    with e Cons show ?thesis by auto
  qed
qed

lemma has_exponent_append:
  "has_exponent (xs @ ys) \<longleftrightarrow>
     has_exponent xs \<or> has_exponent ys \<or> (xs \<noteq> [] \<and> ys \<noteq> [] \<and> last xs = 94 \<and> exponent_char (hd ys))"
proof (induction xs)
  case Nil
  show ?case by simp
next
  case (Cons a xs)
  show ?case
    by (cases xs; cases ys) (use Cons in \<open>auto simp: has_exponent_Cons\<close>)
qed

lemma has_exponent_superscripts:
  "list_all exponent_char run \<Longrightarrow> \<not> has_exponent (map superscript run)"
  by (induction run) (auto simp: has_exponent_Cons superscript_not_caret)

lemma replaceSuperscripts_leaves_none: "\<not> has_exponent (replaceSuperscripts t)"
proof (induction t rule: replaceSuperscripts.induct)
  case 1
  show ?case by simp
next
  case (2 c cs)
  show ?case
  proof (cases "c = 94 \<and> takeWhile exponent_char cs \<noteq> []")
    case True
    let ?run = "takeWhile exponent_char cs"
    have all: "list_all exponent_char ?run"
      by (auto simp: list_all_iff dest: set_takeWhileD)
    have "last (map superscript ?run) \<noteq> 94"
      using True all by (simp add: last_map list_all_iff superscript_not_caret)
    with True 2(1) all show ?thesis
      by (simp add: has_exponent_append has_exponent_superscripts)
  next
    case False
    then have h: "c = 94 \<Longrightarrow> cs = [] \<or> \<not> exponent_char (hd cs)"
      by (cases cs) (auto split: if_splits)
    have "\<not> (c = 94 \<and> replaceSuperscripts cs \<noteq> [] \<and> exponent_char (hd (replaceSuperscripts cs)))"
      using h hd_replaceSuperscripts [of cs] by auto
    with False 2(2) show ?thesis
      by (auto simp add: has_exponent_Cons)
  qed
qed

lemma replaceSuperscripts_idem: "replaceSuperscripts (replaceSuperscripts t) = replaceSuperscripts t"
  by (rule replaceSuperscripts_no_exponent) (rule replaceSuperscripts_leaves_none)

lemma replaceSuperscripts_example1:
  "replaceSuperscripts (ascii ''x^2 + y^-1'') = [120, 178, 32, 43, 32, 121, 8315, 185]"
  by (simp add: ascii_def exponent_char_def superscript_def superscript_map_def)

lemma replaceSuperscripts_example2:
  "replaceSuperscripts (ascii ''10^-6'') = [49, 48, 8315, 8310]"
  by (simp add: ascii_def exponent_char_def superscript_def superscript_map_def)

lemma superscript_table:
  "map superscript (ascii ''0123456789+-'') =
     [0x2070, 0xB9, 0xB2, 0xB3, 0x2074, 0x2075, 0x2076, 0x2077, 0x2078, 0x2079, 0x207A, 0x207B]"
  by (simp add: ascii_def superscript_def superscript_map_def)

section \<open>C3: exponents are rewritten to superscripts, once and for all\<close>

text \<open>
  Claim C3. For every input string, \<open>replaceSuperscripts\<close> rewrites every occurrence of
  a caret followed by one or more characters among the digits, \<open>+\<close> and \<open>-\<close> into the
  corresponding superscript characters and leaves all other characters unchanged:
  \<^item> a caret followed by a maximal non-empty run of such characters, anywhere in the
    text, is replaced by the superscripts of the run, and the text before and after it is
    rewritten on its own;
  \<^item> a text with no caret followed by such a character is returned as it is, so
    superscript characters already present stay;
  \<^item> the result has no caret followed by such a character, and rewriting it again
    changes nothing;
  \<^item> the digits 0 to 9, \<open>+\<close> and \<open>-\<close> map to U+2070, U+00B9, U+00B2, U+00B3, U+2074 to
    U+2079, U+207A and U+207B;
  \<^item> \<open>x^2 + y^-1\<close> becomes x, U+00B2, \<open> + y\<close>, U+207B, U+00B9, and \<open>10^-6\<close> becomes
    \<open>10\<close>, U+207B, U+2076.
\<close>

theorem replaceSuperscripts_rewrites_exponents:
  "(run \<noteq> [] \<and> list_all exponent_char run \<and> (post = [] \<or> \<not> exponent_char (hd post)) \<longrightarrow>
      replaceSuperscripts (pre @ 94 # run @ post) =
        replaceSuperscripts pre @ map superscript run @ replaceSuperscripts post)
   \<and> (\<not> has_exponent t \<longrightarrow> replaceSuperscripts t = t)
   \<and> \<not> has_exponent (replaceSuperscripts t)
   \<and> replaceSuperscripts (replaceSuperscripts t) = replaceSuperscripts t
   \<and> map superscript (ascii ''0123456789+-'') =
        [0x2070, 0xB9, 0xB2, 0xB3, 0x2074, 0x2075, 0x2076, 0x2077, 0x2078, 0x2079, 0x207A, 0x207B]
   \<and> replaceSuperscripts (ascii ''x^2 + y^-1'') = [120, 0xB2, 32, 43, 32, 121, 0x207B, 0xB9]
   \<and> replaceSuperscripts (ascii ''10^-6'') = [49, 48, 0x207B, 0x2076]"
proof -
  have "replaceSuperscripts (pre @ 94 # run @ post) =
          replaceSuperscripts pre @ map superscript run @ replaceSuperscripts post"
    if "run \<noteq> []" "list_all exponent_char run" "post = [] \<or> \<not> exponent_char (hd post)"
    using replaceSuperscripts_run [OF that] by (simp only: replaceSuperscripts_before_caret)
  moreover have "replaceSuperscripts (ascii ''x^2 + y^-1'') = [120, 0xB2, 32, 43, 32, 121, 0x207B, 0xB9]"
    using replaceSuperscripts_example1 by simp
  moreover have "replaceSuperscripts (ascii ''10^-6'') = [49, 48, 0x207B, 0x2076]"
    using replaceSuperscripts_example2 by simp
  ultimately show ?thesis
    using replaceSuperscripts_no_exponent [of t] replaceSuperscripts_leaves_none [of t]
      replaceSuperscripts_idem [of t] superscript_table
    by blast
qed

text \<open>
  At \<open>x^2 + y\<close>, split at its caret, and at the text x, U+00B2, which has no caret.
\<close>

theorem replaceSuperscripts_rewrites_exponents_witness:
  "ascii ''2'' \<noteq> [] \<and> list_all exponent_char (ascii ''2'') \<and> \<not> exponent_char (hd (ascii '' + y''))
   \<and> replaceSuperscripts (ascii ''x'' @ 94 # ascii ''2'' @ ascii '' + y'') =
       replaceSuperscripts (ascii ''x'') @ map superscript (ascii ''2'') @ replaceSuperscripts (ascii '' + y'')
   \<and> \<not> has_exponent [120, 0xB2]
   \<and> replaceSuperscripts [120, 0xB2] = [120, 0xB2]"
proof -
  have h: "ascii ''2'' \<noteq> [] \<and> list_all exponent_char (ascii ''2'')
           \<and> (ascii '' + y'' = [] \<or> \<not> exponent_char (hd (ascii '' + y'')))"
    by (simp add: ascii_def exponent_char_def)
  have n: "\<not> has_exponent [120, 0xB2]"
    by (simp add: exponent_char_def)
  from replaceSuperscripts_rewrites_exponents
         [of "ascii ''2''" "ascii '' + y''" "ascii ''x''" "[120, 0xB2]"] h n
  show ?thesis by (simp add: ascii_def)
qed

section \<open>The operations behind getChapters\<close>

lemma is429_isTransient: "is429 e \<Longrightarrow> isTransient e"
  by (auto simp: is429_def isTransient_def)

lemma getChapters_operation_no_content:
  assumes "gen (ChaptersRequest c sub) s = (Inr r, s')" and "resp_text r = None \<or> resp_text r = Some []"
  shows "getChapters_operation gen parse c sub s = (Inr [], s')"
  using assms by (auto simp: getChapters_operation_def)

lemma getChapters_operation_error:
  assumes "gen (ChaptersRequest c sub) s = (Inl e, s')"
  shows "getChapters_operation gen parse c sub s = (Inl e, s')"
  using assms by (simp add: getChapters_operation_def)

lemma getChapters_always_failing_state:
  assumes "\<forall>s. \<exists>e s'. gen (ChaptersRequest c sub) s = (Inl e, s') \<and> isTransient e"
  shows "fst (snd (getChapters gen parse c sub (s, []))) = ((snd \<circ> gen (ChaptersRequest c sub)) ^^ 4) s"
proof -
  let ?op = "getChapters_operation gen parse c sub"
  from assms have h: "\<forall>s. \<exists>e s'. ?op s = (Inl e, s') \<and> isTransient e"
    by (metis getChapters_operation_error)
  have "snd (?op x) = snd (gen (ChaptersRequest c sub) x)" for x
    using assms getChapters_operation_error [of gen c sub x _ _ parse] by (metis snd_conv)
  then have f: "snd \<circ> ?op = snd \<circ> gen (ChaptersRequest c sub)"
    by (simp add: fun_eq_iff)
  from retryAPI_always_failing_result [OF h, of 3 2000 s "[]"]
  have "fst (snd (retryAPI ?op 3 2000 (s, []))) = ((snd \<circ> ?op) ^^ Suc 3) s"
    by simp
  also have "Suc 3 = 4" by simp
  finally show ?thesis
    unfolding f by (simp only: getChapters_def)
qed

section \<open>C4: getChapters on no content and on failure\<close>

text \<open>
  Claim C4 says that \<open>getChapters\<close> returns an empty sequence and never throws when the
  response carries no content or the call errors. The second half fails: \<open>getChapters\<close>
  has no handler of its own, so a failure of the call that \<open>retryAPI\<close> does not absorb
  reaches the caller (whose own \<open>try\<close>/\<open>catch\<close> shows the inline message). Here the
  collaborator fails without the transient signature, and \<open>getChapters\<close> fails with
  that failure.
\<close>

theorem getChapters_error_counterexample:
  "fst (getChapters failing_gen parse_nothing (ascii ''Class 10'') (ascii ''Science'') (0, []))
     = Inl (Error (ascii ''fetch failed''))
   \<and> fst (getChapters failing_gen parse_nothing (ascii ''Class 10'') (ascii ''Science'') (0, []))
     \<noteq> Inr []"
proof -
  have n: "\<not> isTransient (Error (ascii ''fetch failed'')) \<or> (3::int) \<le> 0"
    by (simp add: isTransient_def Error_def ascii_def)
  have "getChapters_operation failing_gen parse_nothing (ascii ''Class 10'') (ascii ''Science'') 0
          = (Inl (Error (ascii ''fetch failed'')), 1)"
    by (simp add: getChapters_operation_def failing_gen_def)
  with n show ?thesis
    by (simp add: getChapters_def retryAPI_first_failure_final)
qed

text \<open>
  Claim C4, amended. For every class/subject pair:
  \<^item> when the response carries no content (no text, or the empty text), \<open>getChapters\<close>
    returns the empty sequence, after one invocation;
  \<^item> when the call fails with a failure that lacks the transient signature,
    \<open>getChapters\<close> fails with that failure, after one invocation;
  \<^item> when every call fails with a transient failure, \<open>getChapters\<close> fails with one of
    these failures, after four invocations and delays of 2000, 4000 and 8000 ms: the
    world has gone through four calls of the collaborator, one after the other.
\<close>

theorem getChapters_no_content_or_failure:
  "(gen (ChaptersRequest c sub) s = (Inr r, s') \<and> (resp_text r = None \<or> resp_text r = Some []) \<longrightarrow>
      getChapters gen parse c sub (s, []) = (Inr [], s', [Invoke]))
   \<and> (gen (ChaptersRequest c sub) s = (Inl e, s') \<and> \<not> isTransient e \<longrightarrow>
      getChapters gen parse c sub (s, []) = (Inl e, s', [Invoke]))
   \<and> ((\<forall>s. \<exists>e s'. gen (ChaptersRequest c sub) s = (Inl e, s') \<and> isTransient e) \<longrightarrow>
      (\<exists>e s0 s1. gen (ChaptersRequest c sub) s0 = (Inl e, s1) \<and> isTransient e
         \<and> fst (getChapters gen parse c sub (s, [])) = Inl e)
      \<and> snd (snd (getChapters gen parse c sub (s, []))) =
          [Invoke, Sleep 2000, Invoke, Sleep 4000, Invoke, Sleep 8000, Invoke]
      \<and> fst (snd (getChapters gen parse c sub (s, []))) =
          ((snd \<circ> gen (ChaptersRequest c sub)) ^^ 4) s)"
proof (intro conjI impI)
  assume "gen (ChaptersRequest c sub) s = (Inr r, s') \<and> (resp_text r = None \<or> resp_text r = Some [])"
  then have "getChapters_operation gen parse c sub s = (Inr [], s')"
    by (simp add: getChapters_operation_no_content)
  then show "getChapters gen parse c sub (s, []) = (Inr [], s', [Invoke])"
    by (simp add: getChapters_def retryAPI_success)
next
  assume a: "gen (ChaptersRequest c sub) s = (Inl e, s') \<and> \<not> isTransient e"
  then have "getChapters_operation gen parse c sub s = (Inl e, s')"
    by (simp add: getChapters_operation_error)
  with a show "getChapters gen parse c sub (s, []) = (Inl e, s', [Invoke])"
    by (simp add: getChapters_def retryAPI_first_failure_final)
next
  assume a: "\<forall>s. \<exists>e s'. gen (ChaptersRequest c sub) s = (Inl e, s') \<and> isTransient e"
  let ?op = "getChapters_operation gen parse c sub"
  let ?P = "\<lambda>e. \<exists>s0 s1. gen (ChaptersRequest c sub) s0 = (Inl e, s1)"
  from a have "\<forall>s. \<exists>e s'. ?op s = (Inl e, s') \<and> isTransient e \<and> ?P e"
    by (metis getChapters_operation_error)
  from retryAPI_always_failing [where P = ?P, OF this, of 3 2000 s "[]"]
  obtain e s' where r: "retryAPI ?op 3 2000 (s, []) = (Inl e, s', backoff 3 2000)"
    and t: "isTransient e" and p: "?P e" by auto
  have b: "backoff 3 2000 = [Invoke, Sleep 2000, Invoke, Sleep 4000, Invoke, Sleep 8000, Invoke]"
    by (simp add: numeral_3_eq_3)
  from r t p show "\<exists>e s0 s1. gen (ChaptersRequest c sub) s0 = (Inl e, s1) \<and> isTransient e
         \<and> fst (getChapters gen parse c sub (s, [])) = Inl e"
    by (auto simp: getChapters_def)
  from r b show "snd (snd (getChapters gen parse c sub (s, []))) =
          [Invoke, Sleep 2000, Invoke, Sleep 4000, Invoke, Sleep 8000, Invoke]"
    by (simp add: getChapters_def)
  from a show "fst (snd (getChapters gen parse c sub (s, []))) =
          ((snd \<circ> gen (ChaptersRequest c sub)) ^^ 4) s"
    by (rule getChapters_always_failing_state)
qed

text \<open>
  A collaborator that answers with no text, one that fails without the signature, and
  one that always answers 503.
\<close>

theorem getChapters_no_content_or_failure_witness:
  "silent_gen (ChaptersRequest (ascii ''Class 10'') (ascii ''Science'')) 0 = (Inr \<lparr>resp_text = None\<rparr>, 1)
   \<and> getChapters silent_gen parse_nothing (ascii ''Class 10'') (ascii ''Science'') (0, []) = (Inr [], 1, [Invoke])
   \<and> failing_gen (ChaptersRequest (ascii ''Class 10'') (ascii ''Science'')) 0 = (Inl (Error (ascii ''fetch failed'')), 1)
   \<and> \<not> isTransient (Error (ascii ''fetch failed''))
   \<and> getChapters failing_gen parse_nothing (ascii ''Class 10'') (ascii ''Science'') (0, [])
       = (Inl (Error (ascii ''fetch failed'')), 1, [Invoke])
   \<and> (\<forall>s. \<exists>e s'. unavailable_gen (ChaptersRequest (ascii ''Class 10'') (ascii ''Science'')) s = (Inl e, s')
          \<and> isTransient e)
   \<and> snd (snd (getChapters unavailable_gen parse_nothing (ascii ''Class 10'') (ascii ''Science'') (0, []))) =
       [Invoke, Sleep 2000, Invoke, Sleep 4000, Invoke, Sleep 8000, Invoke]"
proof -
  let ?c = "ascii ''Class 10''" and ?sub = "ascii ''Science''"
  have 1: "silent_gen (ChaptersRequest ?c ?sub) 0 = (Inr \<lparr>resp_text = None\<rparr>, 1)
       \<and> (resp_text \<lparr>resp_text = None\<rparr> = None \<or> resp_text \<lparr>resp_text = None\<rparr> = Some [])"
    by (simp add: silent_gen_def)
  have 2: "failing_gen (ChaptersRequest ?c ?sub) 0 = (Inl (Error (ascii ''fetch failed'')), 1)
       \<and> \<not> isTransient (Error (ascii ''fetch failed''))"
    by (simp add: failing_gen_def isTransient_def Error_def ascii_def)
  have 3: "\<forall>s. \<exists>e s'. unavailable_gen (ChaptersRequest ?c ?sub) s = (Inl e, s') \<and> isTransient e"
    by (simp add: unavailable_gen_def unavailable_def isTransient_def)
  from getChapters_no_content_or_failure
         [where gen = silent_gen and c = ?c and sub = ?sub and s = 0 and r = "\<lparr>resp_text = None\<rparr>"
            and s' = 1 and parse = parse_nothing] 1
  have a: "getChapters silent_gen parse_nothing ?c ?sub (0, []) = (Inr [], 1, [Invoke])"
    by blast
  from getChapters_no_content_or_failure
         [where gen = failing_gen and c = ?c and sub = ?sub and s = 0 and s' = 1
            and parse = parse_nothing and e = "Error (ascii ''fetch failed'')"] 2
  have b: "getChapters failing_gen parse_nothing ?c ?sub (0, []) = (Inl (Error (ascii ''fetch failed'')), 1, [Invoke])"
    by blast
  from getChapters_no_content_or_failure
         [where gen = unavailable_gen and c = ?c and sub = ?sub and s = 0 and parse = parse_nothing] 3
  have c: "snd (snd (getChapters unavailable_gen parse_nothing ?c ?sub (0, []))) =
       [Invoke, Sleep 2000, Invoke, Sleep 4000, Invoke, Sleep 8000, Invoke]"
    by blast
  from 1 2 3 a b c show ?thesis by blast
qed

section \<open>The operation behind analyzeSyllabus\<close>

lemma analyzeSyllabus_operation_no_text:
  assumes "gen (AnalysisRequest f m) s = (Inr r, s')" and "resp_text r = None \<or> resp_text r = Some []"
  shows "analyzeSyllabus_operation gen f m s = (Inl (Error (ascii ''No analysis generated'')), s')"
  using assms by (auto simp: analyzeSyllabus_operation_def)

lemma analyzeSyllabus_operation_error:
  assumes "gen (AnalysisRequest f m) s = (Inl e, s')"
  shows "analyzeSyllabus_operation gen f m s = (Inl e, s')"
  using assms by (simp add: analyzeSyllabus_operation_def)

lemma no_analysis_plain:
  "\<not> isTransient (Error (ascii ''No analysis generated''))"
  "\<not> is429 (Error (ascii ''No analysis generated''))"
  by (simp_all add: isTransient_def is429_def Error_def ascii_def)

lemma backoff_default:
  "backoff 3 2000 = [Invoke, Sleep 2000, Invoke, Sleep 4000, Invoke, Sleep 8000, Invoke]"
  by (simp add: numeral_3_eq_3)

lemma unavailable_signature:
  "isTransient unavailable" "\<not> is429 unavailable" "unavailable \<noteq> highTraffic"
  by (simp_all add: unavailable_def isTransient_def is429_def highTraffic_def Error_def ascii_def)

lemma analyzeSyllabus_always_failing_state:
  assumes "\<forall>s. \<exists>e s'. gen (AnalysisRequest f m) s = (Inl e, s') \<and> isTransient e"
  shows "fst (snd (analyzeSyllabus gen f m (s, []))) = ((snd \<circ> gen (AnalysisRequest f m)) ^^ 4) s"
proof -
  let ?op = "analyzeSyllabus_operation gen f m"
  from assms have h: "\<forall>s. \<exists>e s'. ?op s = (Inl e, s') \<and> isTransient e"
    by (metis analyzeSyllabus_operation_error)
  have "snd (?op x) = snd (gen (AnalysisRequest f m) x)" for x
    using assms analyzeSyllabus_operation_error [of gen f m x] by (metis snd_conv)
  then have g: "snd \<circ> ?op = snd \<circ> gen (AnalysisRequest f m)"
    by (simp add: fun_eq_iff)
  from retryAPI_always_failing_result [OF h, of 3 2000 s "[]"]
  obtain r where r: "retryAPI ?op 3 2000 (s, []) = (r, ((snd \<circ> ?op) ^^ Suc 3) s, backoff 3 2000)"
    by simp
  have "Suc 3 = 4" by simp
  with r have "retryAPI ?op 3 2000 (s, []) = (r, ((snd \<circ> ?op) ^^ 4) s, backoff 3 2000)"
    by simp
  then show ?thesis
    unfolding g by (cases r) (simp_all add: analyzeSyllabus_def)
qed

section \<open>C7: the failures of analyzeSyllabus\<close>

text \<open>
  Claim C7 says that \<open>analyzeSyllabus\<close> surfaces the high-traffic failure whenever its
  retries are exhausted by a failure with the transient rate-limit signature. The handler
  of \<open>analyzeSyllabus\<close> tests less than \<open>retryAPI\<close> does: only status 429 and a message
  containing 429. A collaborator that always answers 503 is retried three times, and then
  the raw 503 failure reaches the caller.
\<close>

theorem analyzeSyllabus_raw_503_counterexample:
  "isTransient unavailable
   \<and> analyzeSyllabus unavailable_gen (ascii ''JVBERi0='') (ascii ''application/pdf'') (0, []) =
       (Inl unavailable, 4, [Invoke, Sleep 2000, Invoke, Sleep 4000, Invoke, Sleep 8000, Invoke])
   \<and> unavailable \<noteq> highTraffic"
proof -
  let ?op = "analyzeSyllabus_operation unavailable_gen (ascii ''JVBERi0='') (ascii ''application/pdf'')"
  have op: "?op s = (Inl unavailable, Suc s)" for s
    by (simp add: analyzeSyllabus_operation_def unavailable_gen_def)
  have "retryAPI ?op 3 2000 (0, []) =
          (Inl unavailable, 4, [Invoke, Sleep 2000, Invoke, Sleep 4000, Invoke, Sleep 8000, Invoke])"
    by (simp add: retryAPI.simps op unavailable_signature)
  then show ?thesis
    by (simp add: analyzeSyllabus_def unavailable_signature)
qed

text \<open>
  Claim C7, amended. \<open>analyzeSyllabus\<close>
  \<^item> fails with the failure \<open>No analysis generated\<close> when the collaborator returns no
    text (absent or empty), after one invocation;
  \<^item> fails with the high-traffic failure, after four invocations, when every call
    fails with status 429 or a message containing 429 (the world has gone through four
    calls of the collaborator, here and in the next case);
  \<^item> fails with the raw failure of the collaborator, after four invocations, when every
    call fails with a transient failure of another kind (status 503, or a message
    containing RESOURCE_EXHAUSTED or quota, and no 429);
  \<^item> fails with the failure of the collaborator, unchanged and after one invocation,
    when that failure lacks the transient signature.
\<close>

theorem analyzeSyllabus_failures:
  "(gen (AnalysisRequest f m) s = (Inr r, s') \<and> (resp_text r = None \<or> resp_text r = Some []) \<longrightarrow>
      analyzeSyllabus gen f m (s, []) = (Inl (Error (ascii ''No analysis generated'')), s', [Invoke]))
   \<and> ((\<forall>s. \<exists>e s'. gen (AnalysisRequest f m) s = (Inl e, s') \<and> is429 e) \<longrightarrow>
        fst (analyzeSyllabus gen f m (s, [])) = Inl highTraffic
        \<and> snd (snd (analyzeSyllabus gen f m (s, []))) =
            [Invoke, Sleep 2000, Invoke, Sleep 4000, Invoke, Sleep 8000, Invoke]
        \<and> fst (snd (analyzeSyllabus gen f m (s, []))) =
            ((snd \<circ> gen (AnalysisRequest f m)) ^^ 4) s)
   \<and> ((\<forall>s. \<exists>e s'. gen (AnalysisRequest f m) s = (Inl e, s') \<and> isTransient e \<and> \<not> is429 e) \<longrightarrow>
        (\<exists>e s0 s1. gen (AnalysisRequest f m) s0 = (Inl e, s1) \<and> isTransient e \<and> \<not> is429 e
           \<and> fst (analyzeSyllabus gen f m (s, [])) = Inl e)
        \<and> snd (snd (analyzeSyllabus gen f m (s, []))) =
            [Invoke, Sleep 2000, Invoke, Sleep 4000, Invoke, Sleep 8000, Invoke]
        \<and> fst (snd (analyzeSyllabus gen f m (s, []))) =
            ((snd \<circ> gen (AnalysisRequest f m)) ^^ 4) s)
   \<and> (gen (AnalysisRequest f m) s = (Inl e, s') \<and> \<not> isTransient e \<longrightarrow>
        analyzeSyllabus gen f m (s, []) = (Inl e, s', [Invoke]))"
proof (intro conjI impI)
  let ?op = "analyzeSyllabus_operation gen f m"
  {
    assume "gen (AnalysisRequest f m) s = (Inr r, s') \<and> (resp_text r = None \<or> resp_text r = Some [])"
    then have "?op s = (Inl (Error (ascii ''No analysis generated'')), s')"
      by (simp add: analyzeSyllabus_operation_no_text)
    then have "retryAPI ?op 3 2000 (s, []) = (Inl (Error (ascii ''No analysis generated'')), s', [Invoke])"
      by (simp add: retryAPI_first_failure_final no_analysis_plain)
    then show "analyzeSyllabus gen f m (s, []) = (Inl (Error (ascii ''No analysis generated'')), s', [Invoke])"
      by (simp add: analyzeSyllabus_def no_analysis_plain)
  }
  {
    assume a: "\<forall>s. \<exists>e s'. gen (AnalysisRequest f m) s = (Inl e, s') \<and> is429 e"
    then have "\<forall>s. \<exists>e s'. gen (AnalysisRequest f m) s = (Inl e, s') \<and> isTransient e"
      by (metis is429_isTransient)
    then show "fst (snd (analyzeSyllabus gen f m (s, []))) =
            ((snd \<circ> gen (AnalysisRequest f m)) ^^ 4) s"
      by (rule analyzeSyllabus_always_failing_state)
    from a have "\<forall>s. \<exists>e s'. ?op s = (Inl e, s') \<and> isTransient e \<and> is429 e"
      by (metis analyzeSyllabus_operation_error is429_isTransient)
    from retryAPI_always_failing [where P = is429, OF this, of 3 2000 s "[]"]
    obtain e s' where r: "retryAPI ?op 3 2000 (s, []) = (Inl e, s', backoff 3 2000)" and p: "is429 e"
      by auto
    from r p show "fst (analyzeSyllabus gen f m (s, [])) = Inl highTraffic"
      by (simp add: analyzeSyllabus_def)
    from r p show "snd (snd (analyzeSyllabus gen f m (s, []))) =
            [Invoke, Sleep 2000, Invoke, Sleep 4000, Invoke, Sleep 8000, Invoke]"
      by (simp add: analyzeSyllabus_def backoff_default)
  }
  {
    let ?P = "\<lambda>e. \<not> is429 e \<and> (\<exists>s0 s1. gen (AnalysisRequest f m) s0 = (Inl e, s1))"
    assume a: "\<forall>s. \<exists>e s'. gen (AnalysisRequest f m) s = (Inl e, s') \<and> isTransient e \<and> \<not> is429 e"
    then have "\<forall>s. \<exists>e s'. gen (AnalysisRequest f m) s = (Inl e, s') \<and> isTransient e"
      by metis
    then show "fst (snd (analyzeSyllabus gen f m (s, []))) =
            ((snd \<circ> gen (AnalysisRequest f m)) ^^ 4) s"
      by (rule analyzeSyllabus_always_failing_state)
    from a have "\<forall>s. \<exists>e s'. ?op s = (Inl e, s') \<and> isTransient e \<and> ?P e"
      by (metis analyzeSyllabus_operation_error)
    from retryAPI_always_failing [where P = ?P, OF this, of 3 2000 s "[]"]
    obtain e s' where r: "retryAPI ?op 3 2000 (s, []) = (Inl e, s', backoff 3 2000)"
      and t: "isTransient e" and p: "?P e"
      by auto
    from r t p show "\<exists>e s0 s1. gen (AnalysisRequest f m) s0 = (Inl e, s1) \<and> isTransient e \<and> \<not> is429 e
           \<and> fst (analyzeSyllabus gen f m (s, [])) = Inl e"
      by (auto simp: analyzeSyllabus_def)
    from r p show "snd (snd (analyzeSyllabus gen f m (s, []))) =
            [Invoke, Sleep 2000, Invoke, Sleep 4000, Invoke, Sleep 8000, Invoke]"
      by (simp add: analyzeSyllabus_def backoff_default)
  }
  {
    assume a: "gen (AnalysisRequest f m) s = (Inl e, s') \<and> \<not> isTransient e"
    then have "?op s = (Inl e, s')"
      by (simp add: analyzeSyllabus_operation_error)
    with a have "retryAPI ?op 3 2000 (s, []) = (Inl e, s', [Invoke])"
      by (simp add: retryAPI_first_failure_final)
    moreover from a have "\<not> is429 e" using is429_isTransient by blast
    ultimately show "analyzeSyllabus gen f m (s, []) = (Inl e, s', [Invoke])"
      by (simp add: analyzeSyllabus_def)
  }
qed

text \<open>
  Collaborators that answer with no text, always with 429, always with 503, and with a
  failure that lacks the signature.
\<close>

theorem analyzeSyllabus_failures_witness:
  "silent_gen (AnalysisRequest (ascii ''JVBERi0='') (ascii ''application/pdf'')) 0 = (Inr \<lparr>resp_text = None\<rparr>, 1)
   \<and> analyzeSyllabus silent_gen (ascii ''JVBERi0='') (ascii ''application/pdf'') (0, [])
       = (Inl (Error (ascii ''No analysis generated'')), 1, [Invoke])
   \<and> (\<forall>s. \<exists>e s'. throttled_gen (AnalysisRequest (ascii ''JVBERi0='') (ascii ''application/pdf'')) s = (Inl e, s')
          \<and> is429 e)
   \<and> fst (analyzeSyllabus throttled_gen (ascii ''JVBERi0='') (ascii ''application/pdf'') (0, [])) = Inl highTraffic
   \<and> (\<forall>s. \<exists>e s'. unavailable_gen (AnalysisRequest (ascii ''JVBERi0='') (ascii ''application/pdf'')) s = (Inl e, s')
          \<and> isTransient e \<and> \<not> is429 e)
   \<and> snd (snd (analyzeSyllabus unavailable_gen (ascii ''JVBERi0='') (ascii ''application/pdf'') (0, []))) =
       [Invoke, Sleep 2000, Invoke, Sleep 4000, Invoke, Sleep 8000, Invoke]
   \<and> failing_gen (AnalysisRequest (ascii ''JVBERi0='') (ascii ''application/pdf'')) 0
       = (Inl (Error (ascii ''fetch failed'')), 1)
   \<and> \<not> isTransient (Error (ascii ''fetch failed''))
   \<and> analyzeSyllabus failing_gen (ascii ''JVBERi0='') (ascii ''application/pdf'') (0, [])
       = (Inl (Error (ascii ''fetch failed'')), 1, [Invoke])"
proof -
  let ?f = "ascii ''JVBERi0=''" and ?m = "ascii ''application/pdf''"
  have 1: "silent_gen (AnalysisRequest ?f ?m) 0 = (Inr \<lparr>resp_text = None\<rparr>, 1)
       \<and> (resp_text \<lparr>resp_text = None\<rparr> = None \<or> resp_text \<lparr>resp_text = None\<rparr> = Some [])"
    by (simp add: silent_gen_def)
  have 2: "\<forall>s. \<exists>e s'. throttled_gen (AnalysisRequest ?f ?m) s = (Inl e, s') \<and> is429 e"
    by (simp add: throttled_gen_def is429_def)
  have 3: "\<forall>s. \<exists>e s'. unavailable_gen (AnalysisRequest ?f ?m) s = (Inl e, s') \<and> isTransient e \<and> \<not> is429 e"
    by (simp add: unavailable_gen_def unavailable_signature)
  have 4: "failing_gen (AnalysisRequest ?f ?m) 0 = (Inl (Error (ascii ''fetch failed'')), 1)
       \<and> \<not> isTransient (Error (ascii ''fetch failed''))"
    by (simp add: failing_gen_def isTransient_def Error_def ascii_def)
  from analyzeSyllabus_failures
         [where gen = silent_gen and f = ?f and m = ?m and s = 0 and r = "\<lparr>resp_text = None\<rparr>" and s' = 1] 1
  have a: "analyzeSyllabus silent_gen ?f ?m (0, []) = (Inl (Error (ascii ''No analysis generated'')), 1, [Invoke])"
    by blast
  from analyzeSyllabus_failures [where gen = throttled_gen and f = ?f and m = ?m and s = 0] 2
  have b: "fst (analyzeSyllabus throttled_gen ?f ?m (0, [])) = Inl highTraffic"
    by blast
  from analyzeSyllabus_failures [where gen = unavailable_gen and f = ?f and m = ?m and s = 0] 3
  have c: "snd (snd (analyzeSyllabus unavailable_gen ?f ?m (0, []))) =
       [Invoke, Sleep 2000, Invoke, Sleep 4000, Invoke, Sleep 8000, Invoke]"
    by blast
  from analyzeSyllabus_failures
         [where gen = failing_gen and f = ?f and m = ?m and s = 0 and s' = 1 and e = "Error (ascii ''fetch failed'')"] 4
  have d: "analyzeSyllabus failing_gen ?f ?m (0, []) = (Inl (Error (ascii ''fetch failed'')), 1, [Invoke])"
    by blast
  from 1 2 3 4 a b c d show ?thesis by blast
qed

section \<open>The tutor turn\<close>

lemma overwrite_last_snoc:
  "overwrite_last t (ms @ [m]) = Some (ms @ [m\<lparr>msg_text := t\<rparr>])"
  by (simp add: overwrite_last_def nth_append)

text \<open>
  The loop keeps the last message equal to the accumulator and touches no other entry.
\<close>

lemma consume_snoc:
  "msg_text m = full \<Longrightarrow>
   consume chunks full (ms @ [m]) =
     Some (full @ concat (map fragment chunks),
           ms @ [m\<lparr>msg_text := full @ concat (map fragment chunks)\<rparr>])"
proof (induction chunks arbitrary: full m)
  case Nil
  then show ?case by simp
next
  case (Cons c cs)
  show ?case
  proof (cases "fragment c = []")
    case True
    with Cons show ?thesis
      by (cases c) (auto simp: fragment_def)
  next
    case False
    then obtain t where c: "c = Some t" "t \<noteq> []"
      by (cases c) (auto simp: fragment_def)
    have "msg_text (m\<lparr>msg_text := full @ t\<rparr>) = full @ t" by simp
    from Cons.IH [OF this] c show ?thesis
      by (simp add: overwrite_last_snoc fragment_def)
  qed
qed

lemma handleSend_refused:
  assumes "trim (textToSend textOverride (input st)) \<noteq> []"
    and "sendMessageStream (textToSend textOverride (input st)) = SendFailed err"
  shows "handleSend (Some sendMessageStream) textOverride st =
           Some (st\<lparr>messages := messages st @
                       [\<lparr>role = user, msg_text = textToSend textOverride (input st)\<rparr>, apology],
                     input := [], loading := False\<rparr>)"
  using assms by (simp add: handleSend_def Let_def)

lemma handleSend_streamed:
  assumes "trim (textToSend textOverride (input st)) \<noteq> []"
    and "sendMessageStream (textToSend textOverride (input st)) = Stream chunks failure"
  shows "handleSend (Some sendMessageStream) textOverride st =
           Some (st\<lparr>messages := messages st @
                       [\<lparr>role = user, msg_text = textToSend textOverride (input st)\<rparr>,
                        \<lparr>role = model, msg_text = concat (map fragment chunks)\<rparr>]
                       @ (case failure of None \<Rightarrow> [] | Some err \<Rightarrow> [apology]),
                     input := [], loading := False\<rparr>)"
  using assms
    consume_snoc [of "\<lparr>role = model, msg_text = []\<rparr>" "[]" chunks
      "messages st @ [\<lparr>role = user, msg_text = textToSend textOverride (input st)\<rparr>]"]
  by (cases failure) (simp_all add: handleSend_def Let_def)

lemma asking_text:
  "textToSend None (input asking) = ascii ''What is osmosis?''"
  "trim (ascii ''What is osmosis?'') \<noteq> []"
  by (simp_all add: textToSend_def asking_def trim_def ascii_def js_whitespace_def)

section \<open>C5: a failing tutor turn\<close>

text \<open>
  Claim C5 says that when the stream fails the in-progress Model message is replaced by
  the apology, so that no truncated partial answer stays in the transcript as an entry of
  its own. The handler appends the apology instead. Here the stream delivers one fragment
  and then fails: the transcript ends with the partial Model message, which keeps the
  fragment, followed by the apology as a further entry.
\<close>

theorem handleSend_partial_kept_counterexample:
  "handleSend (Some breaking_stream) None asking =
     Some \<lparr>messages =
             [greeting,
              \<lparr>role = user, msg_text = ascii ''What is osmosis?''\<rparr>,
              \<lparr>role = model, msg_text = ascii ''Osmosis is the''\<rparr>,
              apology],
           input = [], loading = False\<rparr>
   \<and> \<lparr>role = model, msg_text = ascii ''Osmosis is the''\<rparr> \<noteq> apology"
proof -
  have "breaking_stream (textToSend None (input asking)) =
          Stream [Some (ascii ''Osmosis is the'')] (Some (Error (ascii ''network'')))"
    by (simp add: breaking_stream_def)
  from handleSend_streamed [where sendMessageStream = breaking_stream, OF _ this] asking_text
  have "handleSend (Some breaking_stream) None asking =
          Some (asking\<lparr>messages := messages asking @
                  [\<lparr>role = user, msg_text = ascii ''What is osmosis?''\<rparr>,
                   \<lparr>role = model, msg_text = concat (map fragment [Some (ascii ''Osmosis is the'')])\<rparr>]
                  @ [apology],
                input := [], loading := False\<rparr>)"
    by simp
  moreover have "\<lparr>role = model, msg_text = ascii ''Osmosis is the''\<rparr> \<noteq> apology"
    by (simp add: apology_def ascii_def)
  ultimately show ?thesis
    by (simp add: asking_def fragment_def)
qed

text \<open>
  Claim C5, amended. For every tutor turn (a session is present and the text to send is
  not only white space) in which the remote stream fails, a Model message with the fixed
  apology text \<open>I'm sorry, I encountered an error. Please try again.\<close> is appended as the
  last entry of the transcript, after the User message of the turn, so the final Model
  message's text is exactly the apology string and the entries from before the turn are
  unchanged. When the failure comes while the fragments are consumed, the in-progress
  Model message is not replaced: it stays, with the fragments received so far, as the
  entry before the apology.
\<close>

theorem handleSend_failure_appends_apology:
  assumes "chat = Some sendMessageStream"
    and "trim (textToSend textOverride (input st)) \<noteq> []"
  shows "(sendMessageStream (textToSend textOverride (input st)) = SendFailed err \<longrightarrow>
            handleSend chat textOverride st =
              Some (st\<lparr>messages := messages st @
                       [\<lparr>role = user, msg_text = textToSend textOverride (input st)\<rparr>, apology],
                     input := [], loading := False\<rparr>))
       \<and> (sendMessageStream (textToSend textOverride (input st)) = Stream chunks (Some err) \<longrightarrow>
            handleSend chat textOverride st =
              Some (st\<lparr>messages := messages st @
                       [\<lparr>role = user, msg_text = textToSend textOverride (input st)\<rparr>,
                        \<lparr>role = model, msg_text = concat (map fragment chunks)\<rparr>,
                        apology],
                     input := [], loading := False\<rparr>))
       \<and> role apology = model
       \<and> msg_text apology = ascii ''I'm sorry, I encountered an error. Please try again.''"
proof (intro conjI impI)
  assume "sendMessageStream (textToSend textOverride (input st)) = SendFailed err"
  from handleSend_refused [where sendMessageStream = sendMessageStream, OF assms(2) this] assms(1)
  show "handleSend chat textOverride st =
          Some (st\<lparr>messages := messages st @
                   [\<lparr>role = user, msg_text = textToSend textOverride (input st)\<rparr>, apology],
                 input := [], loading := False\<rparr>)"
    by simp
next
  assume "sendMessageStream (textToSend textOverride (input st)) = Stream chunks (Some err)"
  from handleSend_streamed [where sendMessageStream = sendMessageStream, OF assms(2) this] assms(1)
  show "handleSend chat textOverride st =
          Some (st\<lparr>messages := messages st @
                   [\<lparr>role = user, msg_text = textToSend textOverride (input st)\<rparr>,
                    \<lparr>role = model, msg_text = concat (map fragment chunks)\<rparr>,
                    apology],
                 input := [], loading := False\<rparr>)"
    by simp
qed (simp_all add: apology_def)

text \<open>A session that refuses the request, and one whose stream fails after a fragment.\<close>

theorem handleSend_failure_appends_apology_witness:
  "trim (textToSend None (input asking)) \<noteq> []
   \<and> refusing_stream (textToSend None (input asking)) = SendFailed (Error (ascii ''network''))
   \<and> map msg_text (messages (the (handleSend (Some refusing_stream) None asking))) =
       [msg_text greeting, ascii ''What is osmosis?'', msg_text apology]
   \<and> breaking_stream (textToSend None (input asking)) =
       Stream [Some (ascii ''Osmosis is the'')] (Some (Error (ascii ''network'')))
   \<and> map msg_text (messages (the (handleSend (Some breaking_stream) None asking))) =
       [msg_text greeting, ascii ''What is osmosis?'', ascii ''Osmosis is the'', msg_text apology]"
proof -
  have t: "trim (textToSend None (input asking)) \<noteq> []"
    using asking_text by simp
  have r: "refusing_stream (textToSend None (input asking)) = SendFailed (Error (ascii ''network''))"
    by (simp add: refusing_stream_def)
  have b: "breaking_stream (textToSend None (input asking)) =
       Stream [Some (ascii ''Osmosis is the'')] (Some (Error (ascii ''network'')))"
    by (simp add: breaking_stream_def)
  from handleSend_failure_appends_apology
         [where chat = "Some refusing_stream" and sendMessageStream = refusing_stream
            and textOverride = None and st = asking and err = "Error (ascii ''network'')", OF refl t] r
  have 1: "map msg_text (messages (the (handleSend (Some refusing_stream) None asking))) =
       [msg_text greeting, ascii ''What is osmosis?'', msg_text apology]"
    by (simp add: asking_text) (simp add: asking_def)
  from handleSend_failure_appends_apology
         [where chat = "Some breaking_stream" and sendMessageStream = breaking_stream
            and textOverride = None and st = asking and err = "Error (ascii ''network'')"
            and chunks = "[Some (ascii ''Osmosis is the'')]", OF refl t] b
  have 2: "map msg_text (messages (the (handleSend (Some breaking_stream) None asking))) =
       [msg_text greeting, ascii ''What is osmosis?'', ascii ''Osmosis is the'', msg_text apology]"
    by (simp add: asking_text fragment_def) (simp add: asking_def)
  from t r b 1 2 show ?thesis by blast
qed

section \<open>C6: a successful tutor turn\<close>

text \<open>
  Claim C6. For every text to send that is not empty or only white space, and every
  finite sequence of received fragments, a successful turn (a session is present, the
  request is accepted and the stream ends without failure) appends to the transcript
  exactly one User message with that text followed by exactly one Model message; the
  final text of the Model message is the concatenation of the received fragments in the
  order of receipt; and the entries that were in the transcript before the turn are
  unchanged.
\<close>

theorem handleSend_success:
  assumes "chat = Some sendMessageStream"
    and "trim (textToSend textOverride (input st)) \<noteq> []"
    and "sendMessageStream (textToSend textOverride (input st)) = Stream chunks None"
  shows "handleSend chat textOverride st =
           Some (st\<lparr>messages := messages st @
                       [\<lparr>role = user, msg_text = textToSend textOverride (input st)\<rparr>,
                        \<lparr>role = model, msg_text = concat (map fragment chunks)\<rparr>],
                     input := [], loading := False\<rparr>)"
  using handleSend_streamed [where sendMessageStream = sendMessageStream, OF assms(2,3)] assms(1) by simp

text \<open>
  A stream of four chunks, one without text and one with the empty text, after a greeting.
\<close>

theorem handleSend_success_witness:
  "trim (textToSend None (input asking)) \<noteq> []
   \<and> answering_stream (textToSend None (input asking)) =
       Stream [Some (ascii ''Osmosis is the''), None, Some [], Some (ascii '' movement of water.'')] None
   \<and> handleSend (Some answering_stream) None asking =
       Some \<lparr>messages =
               [greeting,
                \<lparr>role = user, msg_text = ascii ''What is osmosis?''\<rparr>,
                \<lparr>role = model, msg_text = ascii ''Osmosis is the movement of water.''\<rparr>],
             input = [], loading = False\<rparr>"
proof -
  have t: "trim (textToSend None (input asking)) \<noteq> []"
    using asking_text by simp
  have a: "answering_stream (textToSend None (input asking)) =
       Stream [Some (ascii ''Osmosis is the''), None, Some [], Some (ascii '' movement of water.'')] None"
    by (simp add: answering_stream_def)
  have c: "concat (map fragment [Some (ascii ''Osmosis is the''), None, Some [], Some (ascii '' movement of water.'')])
             = ascii ''Osmosis is the movement of water.''"
    by (simp add: fragment_def ascii_def)
  from handleSend_success [where sendMessageStream = answering_stream, OF refl t a] t a show ?thesis
    unfolding c by (simp add: asking_text) (simp add: asking_def)
qed

section \<open>The bookmark store\<close>

lemma getBookmarks_allBookmarks [simp]: "getBookmarks (Some (allBookmarks store)) u = getBookmarks store u"
  by (simp add: getBookmarks_def allBookmarks_def split: option.splits)

lemma getBookmarks_upd:
  "getBookmarks (Some ((allBookmarks store)(uid \<mapsto> bs))) u = (if u = uid then bs else getBookmarks store u)"
  by (simp add: getBookmarks_def allBookmarks_def split: option.splits)

lemma addBookmark_result:
  assumes "addBookmark uid nd ty idx t1 t2 store = Inr (b, store')"
  shows "bm_type b = ty \<and> topic (noteData b) = topic nd \<and> sectionIndex b = idx
         \<and> (if list_ex (same_bookmark ty (topic nd) idx) (getBookmarks store uid)
            then store' = store
            else store' = Some ((allBookmarks store)(uid \<mapsto> b # getBookmarks store uid)))"
  using assms by (auto simp: addBookmark_def Let_def split: sum.splits if_splits)

lemma addBookmark_stored:
  assumes "addBookmark uid nd ty idx t1 t2 store = Inr (b, store')"
  shows "list_ex (same_bookmark ty (topic nd) idx) (getBookmarks store' uid)"
proof (cases "list_ex (same_bookmark ty (topic nd) idx) (getBookmarks store uid)")
  case True
  with addBookmark_result [OF assms] show ?thesis by simp
next
  case False
  with addBookmark_result [OF assms] show ?thesis
    by (simp add: getBookmarks_upd same_bookmark_def)
qed

lemma addBookmark_fresh:
  assumes "addBookmark uid nd ty idx t1 t2 store = Inr (b, store')"
    and "\<not> list_ex (same_bookmark ty (topic nd) idx) (getBookmarks store uid)"
  shows "getBookmarks store' u = (if u = uid then b # getBookmarks store uid else getBookmarks store u)"
    and "same_bookmark ty (topic nd) idx b"
  using addBookmark_result [OF assms(1)] assms(2)
  by (simp_all add: getBookmarks_upd same_bookmark_def)

lemma addBookmark_others:
  assumes "addBookmark uid nd ty idx t1 t2 store = Inr (b, store')" and "u \<noteq> uid"
  shows "getBookmarks store' u = getBookmarks store u"
  using addBookmark_result [OF assms(1)] assms(2)
  by (auto simp: getBookmarks_upd split: if_splits)

lemma addBookmark_twice:
  assumes 1: "addBookmark uid nd ty idx t1 t2 store = Inr (b1, store1)"
    and t: "topic nd' = topic nd"
    and 2: "addBookmark uid nd' ty idx t3 t4 store1 = Inr (b2, store2)"
  shows "store2 = store1"
  using addBookmark_result [OF 2] addBookmark_stored [OF 1] t by simp

lemma filter_none: "\<not> list_ex P xs \<Longrightarrow> filter P xs = []"
  by (induction xs) auto

lemma removeBookmark_lists:
  "getBookmarks (removeBookmark uid bookmarkId store) u =
     (if u = uid then filter (\<lambda>b. bm_id b \<noteq> bookmarkId) (getBookmarks store uid) else getBookmarks store u)"
  by (cases "allBookmarks store uid")
     (auto simp: removeBookmark_def getBookmarks_upd, auto simp: getBookmarks_def)

lemma section_heading_iff:
  "section_heading nd idx = Inl (TypeError (ascii ''heading''))
     \<longleftrightarrow> \<not> (\<exists>i. idx = Some i \<and> 0 \<le> i \<and> i < int (length (sections nd)))"
  by (auto simp: section_heading_def split: option.splits)

lemma addBookmark_section:
  "addBookmark uid nd Section idx t1 t2 store = Inl e \<longleftrightarrow> section_heading nd idx = Inl e"
  by (auto simp: addBookmark_def Let_def split: sum.splits)

lemma addBookmark_section_title:
  assumes "idx = Some i" "0 \<le> i" "i < int (length (sections nd))"
  shows "\<exists>b store'. addBookmark uid nd Section idx t1 t2 store = Inr (b, store')
           \<and> title b = heading (sections nd ! nat i)"
  using assms by (simp add: addBookmark_def Let_def section_heading_def)

lemma addBookmark_topic_title:
  "\<exists>b store'. addBookmark uid nd Topic idx t1 t2 store = Inr (b, store') \<and> title b = topic nd"
  by (simp add: addBookmark_def Let_def)

lemma addBookmark_photosynthesis:
  "addBookmark uid photosynthesis Topic None t1 t2 store =
     (if list_ex (same_bookmark Topic (ascii ''Photosynthesis'') None) (getBookmarks store uid)
      then Inr (topic_bookmark uid t1 t2, store)
      else Inr (topic_bookmark uid t1 t2,
                Some ((allBookmarks store)(uid \<mapsto> topic_bookmark uid t1 t2 # getBookmarks store uid))))"
  by (simp add: addBookmark_def Let_def topic_bookmark_def photosynthesis_def)

lemma same_topic_bookmark: "same_bookmark Topic (ascii ''Photosynthesis'') None (topic_bookmark uid t1 t2)"
  by (simp add: same_bookmark_def topic_bookmark_def photosynthesis_def)

lemma one_bookmark_lists:
  "getBookmarks one_bookmark (ascii ''u1'') = [topic_bookmark (ascii ''u1'') 1700000000123 1700000000124]"
  "getBookmarks one_bookmark (ascii ''u2'') = []"
  "getBookmarks None u = []"
  by (simp_all add: one_bookmark_def getBookmarks_def allBookmarks_def ascii_def)

lemma first_add:
  "addBookmark (ascii ''u1'') photosynthesis Topic None 1700000000123 1700000000124 None =
     Inr (topic_bookmark (ascii ''u1'') 1700000000123 1700000000124, one_bookmark)"
  by (simp add: addBookmark_photosynthesis one_bookmark_lists)
     (simp add: one_bookmark_def allBookmarks_def)

lemma second_add:
  "addBookmark (ascii ''u1'') photosynthesis Topic None 1700000009000 1700000009000 one_bookmark =
     Inr (topic_bookmark (ascii ''u1'') 1700000009000 1700000009000, one_bookmark)"
  by (simp add: addBookmark_photosynthesis one_bookmark_lists same_topic_bookmark)

lemma other_add:
  "addBookmark (ascii ''u2'') photosynthesis Topic None 1700000005000 1700000005000 one_bookmark =
     Inr (topic_bookmark (ascii ''u2'') 1700000005000 1700000005000, two_users)"
  by (simp add: addBookmark_photosynthesis one_bookmark_lists)
     (simp add: one_bookmark_def two_users_def allBookmarks_def)

lemma absent_id:
  "ascii ''bm_0'' \<notin> bm_id ` set (getBookmarks one_bookmark (ascii ''u1''))"
  by (simp add: one_bookmark_lists) (simp add: topic_bookmark_def ascii_def toString.simps)

section \<open>C8: one entry per bookmark, one list per user, removal of an absent id\<close>

text \<open>
  Claim C8. For every user and study note:
  \<^item> adding a bookmark with the same triple of type, topic of the note and section
    index twice for the same user performs no write the second time; when the user had
    no such bookmark before, the user's list afterwards is the first bookmark in front of
    the old list, and exactly one entry of it has that triple;
  \<^item> adding the same bookmark for two different users (neither had it) stores one entry
    in each user's list, independently;
  \<^item> removing a bookmark id that is not in the user's list leaves the list of that
    user, and of every other user, unchanged.
\<close>

theorem bookmarks_dedup_isolation_removal:
  "(addBookmark uid nd ty idx t1 t2 store = Inr (b1, store1) \<and> topic nd' = topic nd
      \<and> addBookmark uid nd' ty idx t3 t4 store1 = Inr (b2, store2) \<longrightarrow>
        store2 = store1
        \<and> (\<not> list_ex (same_bookmark ty (topic nd) idx) (getBookmarks store uid) \<longrightarrow>
             getBookmarks store2 uid = b1 # getBookmarks store uid
             \<and> filter (same_bookmark ty (topic nd) idx) (getBookmarks store2 uid) = [b1]))
   \<and> (uid' \<noteq> uid \<and> addBookmark uid nd ty idx t1 t2 store = Inr (b1, store1)
      \<and> addBookmark uid' nd ty idx t3 t4 store1 = Inr (b2, store2)
      \<and> \<not> list_ex (same_bookmark ty (topic nd) idx) (getBookmarks store uid)
      \<and> \<not> list_ex (same_bookmark ty (topic nd) idx) (getBookmarks store uid') \<longrightarrow>
        getBookmarks store2 uid = b1 # getBookmarks store uid
        \<and> getBookmarks store2 uid' = b2 # getBookmarks store uid')
   \<and> (bookmarkId \<notin> bm_id ` set (getBookmarks store uid) \<longrightarrow>
        (\<forall>u. getBookmarks (removeBookmark uid bookmarkId store) u = getBookmarks store u))"
proof (intro conjI impI)
  assume a: "addBookmark uid nd ty idx t1 t2 store = Inr (b1, store1) \<and> topic nd' = topic nd
      \<and> addBookmark uid nd' ty idx t3 t4 store1 = Inr (b2, store2)"
  then show eq: "store2 = store1"
    using addBookmark_twice by blast
  assume n: "\<not> list_ex (same_bookmark ty (topic nd) idx) (getBookmarks store uid)"
  from a n have g: "getBookmarks store1 uid = b1 # getBookmarks store uid"
    and m: "same_bookmark ty (topic nd) idx b1"
    using addBookmark_fresh [of uid nd ty idx t1 t2 store b1 store1] by simp_all
  from g eq show "getBookmarks store2 uid = b1 # getBookmarks store uid" by simp
  from g eq m n show "filter (same_bookmark ty (topic nd) idx) (getBookmarks store2 uid) = [b1]"
    by (simp add: filter_none)
next
  assume a: "uid' \<noteq> uid \<and> addBookmark uid nd ty idx t1 t2 store = Inr (b1, store1)
      \<and> addBookmark uid' nd ty idx t3 t4 store1 = Inr (b2, store2)
      \<and> \<not> list_ex (same_bookmark ty (topic nd) idx) (getBookmarks store uid)
      \<and> \<not> list_ex (same_bookmark ty (topic nd) idx) (getBookmarks store uid')"
  then have d: "uid' \<noteq> uid" and d': "uid \<noteq> uid'"
    and a1: "addBookmark uid nd ty idx t1 t2 store = Inr (b1, store1)"
    and a2: "addBookmark uid' nd ty idx t3 t4 store1 = Inr (b2, store2)"
    and n1: "\<not> list_ex (same_bookmark ty (topic nd) idx) (getBookmarks store uid)"
    and n2: "\<not> list_ex (same_bookmark ty (topic nd) idx) (getBookmarks store uid')"
    by blast+
  have g1: "getBookmarks store1 uid = b1 # getBookmarks store uid"
    using addBookmark_fresh(1) [OF a1 n1, of uid] by simp
  have g1': "getBookmarks store1 uid' = getBookmarks store uid'"
    using addBookmark_others [OF a1 d] .
  from n2 g1' have n2': "\<not> list_ex (same_bookmark ty (topic nd) idx) (getBookmarks store1 uid')"
    by simp
  have g2: "getBookmarks store2 uid' = b2 # getBookmarks store1 uid'"
    using addBookmark_fresh(1) [OF a2 n2', of uid'] by simp
  have g2': "getBookmarks store2 uid = getBookmarks store1 uid"
    using addBookmark_others [OF a2 d'] .
  from g1 g2' show "getBookmarks store2 uid = b1 # getBookmarks store uid" by simp
  from g2 g1' show "getBookmarks store2 uid' = b2 # getBookmarks store uid'" by simp
next
  assume "bookmarkId \<notin> bm_id ` set (getBookmarks store uid)"
  then have "filter (\<lambda>b. bm_id b \<noteq> bookmarkId) (getBookmarks store uid) = getBookmarks store uid"
    by (auto simp: filter_id_conv)
  then show "\<forall>u. getBookmarks (removeBookmark uid bookmarkId store) u = getBookmarks store u"
    by (simp add: removeBookmark_lists)
qed

text \<open>
  The topic bookmark for Photosynthesis, added twice for user \<open>u1\<close> and once for user
  \<open>u2\<close> on an empty store, and the removal of an id that no bookmark has.
\<close>

theorem bookmarks_dedup_isolation_removal_witness:
  "addBookmark (ascii ''u1'') photosynthesis Topic None 1700000000123 1700000000124 None =
     Inr (topic_bookmark (ascii ''u1'') 1700000000123 1700000000124, one_bookmark)
   \<and> addBookmark (ascii ''u1'') photosynthesis Topic None 1700000009000 1700000009000 one_bookmark =
     Inr (topic_bookmark (ascii ''u1'') 1700000009000 1700000009000, one_bookmark)
   \<and> getBookmarks one_bookmark (ascii ''u1'') = [topic_bookmark (ascii ''u1'') 1700000000123 1700000000124]
   \<and> ascii ''u2'' \<noteq> ascii ''u1''
   \<and> addBookmark (ascii ''u2'') photosynthesis Topic None 1700000005000 1700000005000 one_bookmark =
     Inr (topic_bookmark (ascii ''u2'') 1700000005000 1700000005000, two_users)
   \<and> getBookmarks two_users (ascii ''u1'') = [topic_bookmark (ascii ''u1'') 1700000000123 1700000000124]
   \<and> getBookmarks two_users (ascii ''u2'') = [topic_bookmark (ascii ''u2'') 1700000005000 1700000005000]
   \<and> ascii ''bm_0'' \<notin> bm_id ` set (getBookmarks one_bookmark (ascii ''u1''))
   \<and> getBookmarks (removeBookmark (ascii ''u1'') (ascii ''bm_0'') one_bookmark) (ascii ''u1'') =
       [topic_bookmark (ascii ''u1'') 1700000000123 1700000000124]"
proof -
  let ?u1 = "ascii ''u1''" and ?u2 = "ascii ''u2''"
  let ?b1 = "topic_bookmark ?u1 1700000000123 1700000000124"
  let ?b2 = "topic_bookmark ?u2 1700000005000 1700000005000"
  have d: "?u2 \<noteq> ?u1" by (simp add: ascii_def)
  have n: "\<not> list_ex (same_bookmark Topic (topic photosynthesis) None) (getBookmarks None u)" for u
    by (simp add: one_bookmark_lists)
  from bookmarks_dedup_isolation_removal
         [where uid = ?u1 and nd = photosynthesis and ty = Topic and idx = None
            and ?t1.0 = 1700000000123 and ?t2.0 = 1700000000124 and store = None
            and ?b1.0 = ?b1 and ?store1.0 = one_bookmark and nd' = photosynthesis
            and ?t3.0 = 1700000009000 and ?t4.0 = 1700000009000
            and ?b2.0 = "topic_bookmark ?u1 1700000009000 1700000009000" and ?store2.0 = one_bookmark]
       first_add second_add n
  have 1: "getBookmarks one_bookmark ?u1 = [?b1]"
    by (simp add: one_bookmark_lists)
  from bookmarks_dedup_isolation_removal
         [where uid = ?u1 and nd = photosynthesis and ty = Topic and idx = None
            and ?t1.0 = 1700000000123 and ?t2.0 = 1700000000124 and store = None
            and ?b1.0 = ?b1 and ?store1.0 = one_bookmark and uid' = ?u2
            and ?t3.0 = 1700000005000 and ?t4.0 = 1700000005000
            and ?b2.0 = ?b2 and ?store2.0 = two_users]
       first_add other_add n d
  have 2: "getBookmarks two_users ?u1 = [?b1] \<and> getBookmarks two_users ?u2 = [?b2]"
    by (simp add: one_bookmark_lists)
  from bookmarks_dedup_isolation_removal
         [where uid = ?u1 and store = one_bookmark and bookmarkId = "ascii ''bm_0''"] absent_id
  have 3: "getBookmarks (removeBookmark ?u1 (ascii ''bm_0'') one_bookmark) ?u1 = [?b1]"
    by (simp add: one_bookmark_lists)
  from first_add second_add other_add 1 2 3 d absent_id show ?thesis by simp
qed

section \<open>C10: a section bookmark needs a valid section index\<close>

text \<open>
  Claim C10. With type \<open>section\<close>, \<open>addBookmark\<close> indexes \<open>noteData.sections\<close> at
  \<open>sectionIndex\<close> without a presence or bounds check: it fails with the indexing error
  exactly when the index is missing or outside \<open>0 \<le> sectionIndex < length sections\<close>, it
  fails in no other way, and under the precondition it returns a bookmark whose title is
  the heading of the indexed section. With type \<open>topic\<close> it never fails.
\<close>

theorem addBookmark_section_precondition:
  "(addBookmark uid nd Section idx t1 t2 store = Inl (TypeError (ascii ''heading''))
      \<longleftrightarrow> \<not> (\<exists>i. idx = Some i \<and> 0 \<le> i \<and> i < int (length (sections nd))))
   \<and> (\<forall>e. addBookmark uid nd Section idx t1 t2 store = Inl e \<longrightarrow> e = TypeError (ascii ''heading''))
   \<and> (\<forall>i. idx = Some i \<and> 0 \<le> i \<and> i < int (length (sections nd)) \<longrightarrow>
         (\<exists>b store'. addBookmark uid nd Section idx t1 t2 store = Inr (b, store')
            \<and> title b = heading (sections nd ! nat i)))
   \<and> (\<exists>b store'. addBookmark uid nd Topic idx t1 t2 store = Inr (b, store') \<and> title b = topic nd)"
proof (intro conjI allI impI)
  show "addBookmark uid nd Section idx t1 t2 store = Inl (TypeError (ascii ''heading''))
      \<longleftrightarrow> \<not> (\<exists>i. idx = Some i \<and> 0 \<le> i \<and> i < int (length (sections nd)))"
    by (simp only: addBookmark_section section_heading_iff)
next
  fix e assume "addBookmark uid nd Section idx t1 t2 store = Inl e"
  then have "section_heading nd idx = Inl e" by (simp only: addBookmark_section)
  then show "e = TypeError (ascii ''heading'')"
    by (auto simp: section_heading_def split: option.splits if_splits)
next
  fix i assume "idx = Some i \<and> 0 \<le> i \<and> i < int (length (sections nd))"
  then show "\<exists>b store'. addBookmark uid nd Section idx t1 t2 store = Inr (b, store')
            \<and> title b = heading (sections nd ! nat i)"
    using addBookmark_section_title by blast
next
  show "\<exists>b store'. addBookmark uid nd Topic idx t1 t2 store = Inr (b, store') \<and> title b = topic nd"
    by (rule addBookmark_topic_title)
qed

text \<open>
  A note with one section: index 0 is accepted; no index, index 1 and index -1 fail.
\<close>

theorem addBookmark_section_precondition_witness:
  "(\<exists>b store'. addBookmark (ascii ''u1'') photosynthesis Section (Some 0) 1700000000123 1700000000124 None
        = Inr (b, store') \<and> title b = ascii ''Light reactions'')
   \<and> addBookmark (ascii ''u1'') photosynthesis Section None 1700000000123 1700000000124 None
        = Inl (TypeError (ascii ''heading''))
   \<and> addBookmark (ascii ''u1'') photosynthesis Section (Some 1) 1700000000123 1700000000124 None
        = Inl (TypeError (ascii ''heading''))
   \<and> addBookmark (ascii ''u1'') photosynthesis Section (Some (- 1)) 1700000000123 1700000000124 None
        = Inl (TypeError (ascii ''heading''))"
proof -
  have l: "int (length (sections photosynthesis)) = 1"
    and h: "heading (sections photosynthesis ! nat 0) = ascii ''Light reactions''"
    by (simp_all add: photosynthesis_def)
  have p: "Some (0::int) = Some 0 \<and> (0::int) \<le> 0 \<and> 0 < int (length (sections photosynthesis))"
    by (simp add: l)
  from addBookmark_section_precondition
         [where uid = "ascii ''u1''" and nd = photosynthesis and idx = "Some 0"
            and ?t1.0 = 1700000000123 and ?t2.0 = 1700000000124 and store = None,
          THEN conjunct2, THEN conjunct2, THEN conjunct1, rule_format, OF p]
  have 1: "\<exists>b store'. addBookmark (ascii ''u1'') photosynthesis Section (Some 0) 1700000000123 1700000000124 None
        = Inr (b, store') \<and> title b = ascii ''Light reactions''"
    unfolding h .
  have n: "\<not> (\<exists>i. idx = Some i \<and> 0 \<le> i \<and> i < int (length (sections photosynthesis)))"
    if "idx \<in> {None, Some 1, Some (- 1)}" for idx
    using that by (auto simp: l)
  have 2: "addBookmark (ascii ''u1'') photosynthesis Section None 1700000000123 1700000000124 None
        = Inl (TypeError (ascii ''heading''))"
    by (rule addBookmark_section_precondition [THEN conjunct1, THEN iffD2]) (rule n, simp)
  have 3: "addBookmark (ascii ''u1'') photosynthesis Section (Some 1) 1700000000123 1700000000124 None
        = Inl (TypeError (ascii ''heading''))"
    by (rule addBookmark_section_precondition [THEN conjunct1, THEN iffD2]) (rule n, simp)
  have 4: "addBookmark (ascii ''u1'') photosynthesis Section (Some (- 1)) 1700000000123 1700000000124 None
        = Inl (TypeError (ascii ''heading''))"
    by (rule addBookmark_section_precondition [THEN conjunct1, THEN iffD2]) (rule n, simp)
  show ?thesis
    by (intro conjI) (rule 1, rule 2, rule 3, rule 4)
qed

section \<open>The guest session\<close>

lemma loginUser_anonymous:
  "loginUser supabase stringify Anonymous email_arg password now w =
     (Inr (guestUser now), w\<lparr>guest_item := Some (stringify (guestUser now))\<rparr>)"
  by (simp add: loginUser_def)

lemma subscribe_guest:
  assumes "guest_item w = Some t" and "t \<noteq> []" and "parse t = Inr u"
  shows "subscribeToAuthChanges supabase parse w =
           ([u],
            (case supabase of None \<Rightarrow> w | Some sb \<Rightarrow> w\<lparr>remote_calls := remote_calls w @ [OnAuthStateChange]\<rparr>),
            supabase \<noteq> None)"
  using assms by (cases supabase) (simp_all add: subscribeToAuthChanges_def Let_def truthy_def)

lemma subscribe_no_guest:
  assumes "guest_item w = None"
  shows "subscribeToAuthChanges supabase parse w =
           (case supabase of
              None \<Rightarrow> ([None], w, False)
            | Some sb \<Rightarrow> ([], w\<lparr>remote_calls := remote_calls w @ [OnAuthStateChange]\<rparr>, True))"
  using assms by (cases supabase) (simp_all add: subscribeToAuthChanges_def Let_def truthy_def)

lemma resubscribe_guest:
  assumes "t \<noteq> []" and "parse t = Inr u"
  shows "guest_item w = Some t \<Longrightarrow> guest_item (resubscribe supabase parse n w) = Some t"
proof (induction n arbitrary: w)
  case 0
  then show ?case by simp
next
  case (Suc n)
  have "guest_item (fst (snd (subscribeToAuthChanges supabase parse w))) = Some t"
    using subscribe_guest [where parse = parse and supabase = supabase, OF Suc.prems assms] Suc.prems
    by (cases supabase) simp_all
  from Suc.IH [OF this] show ?case by simp
qed

lemma logoutUser_fields:
  "guest_item (logoutUser supabase w) = None"
  "remote_calls (logoutUser supabase w) =
     remote_calls w @ (case supabase of None \<Rightarrow> [] | Some sb \<Rightarrow> [SignOut])"
  by (cases supabase; simp add: logoutUser_def Let_def)+

lemma authListener_guest:
  "guest_item w = Some t \<Longrightarrow> t \<noteq> [] \<Longrightarrow> authListener w sess = []"
  by (simp add: authListener_def truthy_def)

lemma authListener_no_guest:
  "guest_item w = None \<Longrightarrow> authListener w None = [None]"
  by (simp add: authListener_def truthy_def)

lemma toy_roundtrip:
  "toy_parse (toy_stringify (guestUser now)) = Inr (Some (guestUser now))"
  "toy_stringify (guestUser now) \<noteq> []"
  by (simp_all add: toy_parse_def toy_stringify_def guestUser_def butlast_append)

lemma guest_id_example: "user_id (guestUser 1700000123456) = ascii ''guest-123456''"
  by (simp add: guestUser_def slice_last6_def toString.simps ascii_def)

section \<open>C9: guest login, subscription, logout\<close>

text \<open>
  Claim C9. A guest login makes no call to the remote auth collaborator, returns the
  guest user and stores it under the guest key. Provided the stored text parses back to
  that user (and is not empty), every later call of \<open>subscribeToAuthChanges\<close>, after any
  number \<open>n\<close> of earlier calls, passes exactly that guest user to its callback before it
  returns, whether the remote collaborator is configured or not, and the listener
  registered with a configured collaborator stays silent while the guest session is
  stored. Logging out removes the guest session. After that a subscription passes \<open>null\<close> to
  the callback: at once when the collaborator is not configured; when it is configured,
  logging out has signed out there, the subscription makes no call of its own and its
  listener passes \<open>null\<close> when the collaborator reports no session.
\<close>

theorem guest_session_scenario:
  assumes "parse (stringify (guestUser now)) = Inr (Some (guestUser now))"
    and "stringify (guestUser now) \<noteq> []"
    and "w1 = snd (loginUser supabase stringify Anonymous email_arg password now w)"
    and "wn = resubscribe supabase parse n w1"
    and "w2 = logoutUser supabase wn"
  shows "fst (loginUser supabase stringify Anonymous email_arg password now w) = Inr (guestUser now)
       \<and> remote_calls w1 = remote_calls w
       \<and> guest_item w1 = Some (stringify (guestUser now))
       \<and> fst (subscribeToAuthChanges supabase parse wn) = [Some (guestUser now)]
       \<and> authListener wn sess = []
       \<and> guest_item w2 = None
       \<and> (supabase = None \<longrightarrow> fst (subscribeToAuthChanges supabase parse w2) = [None])
       \<and> (supabase \<noteq> None \<longrightarrow>
            fst (subscribeToAuthChanges supabase parse w2) = []
            \<and> snd (snd (subscribeToAuthChanges supabase parse w2))
            \<and> last (remote_calls w2) = SignOut
            \<and> authListener (fst (snd (subscribeToAuthChanges supabase parse w2))) None = [None])"
proof -
  let ?g = "guestUser now"
  have w1: "w1 = w\<lparr>guest_item := Some (stringify ?g)\<rparr>"
    using assms(3) by (simp add: loginUser_anonymous)
  then have g1: "guest_item w1 = Some (stringify ?g)" by simp
  have gn: "guest_item wn = Some (stringify ?g)"
    unfolding assms(4) using resubscribe_guest [where parse = parse, OF assms(2,1) g1] .
  have s: "fst (subscribeToAuthChanges supabase parse wn) = [Some ?g]"
    using subscribe_guest [where parse = parse, OF gn assms(2,1)] by simp
  have g2: "guest_item w2 = None"
    unfolding assms(5) by (rule logoutUser_fields)
  have a: "fst (subscribeToAuthChanges supabase parse w2) = [None]" if "supabase = None"
    using subscribe_no_guest [OF g2, of supabase parse] that by simp
  have b: "fst (subscribeToAuthChanges supabase parse w2) = []
            \<and> snd (snd (subscribeToAuthChanges supabase parse w2))
            \<and> last (remote_calls w2) = SignOut
            \<and> authListener (fst (snd (subscribeToAuthChanges supabase parse w2))) None = [None]"
    if "supabase \<noteq> None"
  proof -
    from that obtain sb where sb: "supabase = Some sb" by auto
    have "subscribeToAuthChanges supabase parse w2 =
            ([], w2\<lparr>remote_calls := remote_calls w2 @ [OnAuthStateChange]\<rparr>, True)"
      using subscribe_no_guest [OF g2, of supabase parse] sb by simp
    moreover have "last (remote_calls w2) = SignOut"
      unfolding assms(5) using sb by (simp add: logoutUser_fields)
    ultimately show ?thesis
      using g2 by (simp add: authListener_no_guest)
  qed
  show ?thesis
    using w1 g1 s g2 a b authListener_guest [OF gn assms(2)]
    by (simp add: loginUser_anonymous)
qed

text \<open>
  A guest login at time 1700000123456 in an empty world, the third subscription after
  it and a subscription after logging out, without and with a remote collaborator.
\<close>

theorem guest_session_scenario_witness:
  "toy_parse (toy_stringify (guestUser 1700000123456)) = Inr (Some (guestUser 1700000123456))
   \<and> toy_stringify (guestUser 1700000123456) \<noteq> []
   \<and> fst (loginUser None toy_stringify Anonymous None None 1700000123456 fresh_world)
       = Inr (guestUser 1700000123456)
   \<and> fst (subscribeToAuthChanges None toy_parse
        (resubscribe None toy_parse 2
          (snd (loginUser None toy_stringify Anonymous None None 1700000123456 fresh_world))))
       = [Some (guestUser 1700000123456)]
   \<and> fst (subscribeToAuthChanges None toy_parse
        (logoutUser None
          (resubscribe None toy_parse 2
            (snd (loginUser None toy_stringify Anonymous None None 1700000123456 fresh_world)))))
       = [None]
   \<and> fst (subscribeToAuthChanges (Some a_remote) toy_parse
        (resubscribe (Some a_remote) toy_parse 2
          (snd (loginUser (Some a_remote) toy_stringify Anonymous None None 1700000123456 fresh_world))))
       = [Some (guestUser 1700000123456)]
   \<and> fst (subscribeToAuthChanges (Some a_remote) toy_parse
        (logoutUser (Some a_remote)
          (resubscribe (Some a_remote) toy_parse 2
            (snd (loginUser (Some a_remote) toy_stringify Anonymous None None 1700000123456 fresh_world)))))
       = []"
proof -
  note u = guest_session_scenario
             [where parse = toy_parse and stringify = toy_stringify and now = 1700000123456
                and supabase = None and email_arg = None and password = None and w = fresh_world
                and n = 2 and sess = None,
              OF toy_roundtrip refl refl refl]
  note c = guest_session_scenario
             [where parse = toy_parse and stringify = toy_stringify and now = 1700000123456
                and supabase = "Some a_remote" and email_arg = None and password = None
                and w = fresh_world and n = 2 and sess = None,
              OF toy_roundtrip refl refl refl]
  from u have u1: "fst (loginUser None toy_stringify Anonymous None None 1700000123456 fresh_world)
       = Inr (guestUser 1700000123456)"
    by (rule conjunct1)
  from u have u2: "fst (subscribeToAuthChanges None toy_parse
        (resubscribe None toy_parse 2
          (snd (loginUser None toy_stringify Anonymous None None 1700000123456 fresh_world))))
       = [Some (guestUser 1700000123456)]"
    by blast
  from u have u3: "fst (subscribeToAuthChanges None toy_parse
        (logoutUser None
          (resubscribe None toy_parse 2
            (snd (loginUser None toy_stringify Anonymous None None 1700000123456 fresh_world)))))
       = [None]"
    by blast
  from c have c2: "fst (subscribeToAuthChanges (Some a_remote) toy_parse
        (resubscribe (Some a_remote) toy_parse 2
          (snd (loginUser (Some a_remote) toy_stringify Anonymous None None 1700000123456 fresh_world))))
       = [Some (guestUser 1700000123456)]"
    by blast
  from c have c3: "fst (subscribeToAuthChanges (Some a_remote) toy_parse
        (logoutUser (Some a_remote)
          (resubscribe (Some a_remote) toy_parse 2
            (snd (loginUser (Some a_remote) toy_stringify Anonymous None None 1700000123456 fresh_world)))))
       = []"
    by blast
  show ?thesis
    by (intro conjI) (rule toy_roundtrip u1 u2 u3 c2 c3)+
qed

end
